theory Spec2Isabelle
  imports Complex_Main
begin

section \<open>JavaScript numbers\<close>

text \<open>
  A JavaScript number is modelled as an exact rational extended with the three
  non-finite values of IEEE arithmetic. Rounding is not modelled, and neither is the
  sign of zero: a zero divisor is treated as \<open>+0\<close>. In particular a product or
  quotient that underflows to zero or overflows to infinity in double arithmetic keeps
  its exact value here, so nothing below says when a computed divisor is zero.
\<close>

datatype number = Fin rat | PInf | NInf | NaN

fun js_truthy :: "number \<Rightarrow> bool" where
  "js_truthy (Fin r) = (r \<noteq> 0)"
| "js_truthy PInf = True"
| "js_truthy NInf = True"
| "js_truthy NaN = False"

fun is_neg :: "number \<Rightarrow> bool" where
  "is_neg (Fin r) = (r < 0)"
| "is_neg NInf = True"
| "is_neg PInf = False"
| "is_neg NaN = False"

definition signed_inf :: "bool \<Rightarrow> number" where
  "signed_inf neg = (if neg then NInf else PInf)"

fun js_mul :: "number \<Rightarrow> number \<Rightarrow> number" where
  "js_mul NaN b = NaN"
| "js_mul a NaN = NaN"
| "js_mul (Fin a) (Fin b) = Fin (a * b)"
| "js_mul (Fin a) i = (if a = 0 then NaN else signed_inf ((a < 0) \<noteq> is_neg i))"
| "js_mul i (Fin b) = (if b = 0 then NaN else signed_inf (is_neg i \<noteq> (b < 0)))"
| "js_mul i j = signed_inf (is_neg i \<noteq> is_neg j)"

fun js_div :: "number \<Rightarrow> number \<Rightarrow> number" where
  "js_div NaN b = NaN"
| "js_div a NaN = NaN"
| "js_div (Fin a) (Fin b) =
     (if b = 0 then (if a = 0 then NaN else signed_inf (a < 0)) else Fin (a / b))"
| "js_div (Fin a) i = Fin 0"
| "js_div i (Fin b) = signed_inf (is_neg i \<noteq> (b < 0))"
| "js_div i j = NaN"

text \<open>\<open>v || d\<close> on an optional number: a missing, zero or NaN value gives \<open>d\<close>.\<close>

definition or_number :: "number option \<Rightarrow> number \<Rightarrow> number" where
  "or_number v d = (case v of None \<Rightarrow> d | Some n \<Rightarrow> if js_truthy n then n else d)"

text \<open>\<open>v || d\<close> on an optional string: a missing or empty value gives \<open>d\<close>.\<close>

definition or_string :: "string option \<Rightarrow> string \<Rightarrow> string" where
  "or_string v d = (case v of None \<Rightarrow> d | Some s \<Rightarrow> if s = [] then d else s)"

section \<open>Data model\<close>

datatype ptype = PName | PId

text \<open>The placeholder sub-document of \<open>models/Template.js\<close>.\<close>

record placeholder =
  pl_type :: ptype
  pl_x :: rat
  pl_y :: rat
  pl_fontSize :: "rat option"
  pl_fontFamily :: "string option"
  pl_color :: "string option"
  pl_fontWeight :: "string option"
  pl_textAlign :: "string option"
  pl_rotation :: rat

record dimensions =
  dim_width :: rat
  dim_height :: rat

record template =
  tpl_oid :: string
  tpl_name :: string
  tpl_filename :: string
  tpl_dimensions :: dimensions
  tpl_placeholders :: "placeholder list"
  tpl_isActive :: bool
  tpl_createdBy :: string
  tpl_usageCount :: nat

text \<open>The request body's \<open>containerDimensions\<close>; either field may be absent.\<close>

record containerDimensions =
  width :: "rat option"
  height :: "rat option"

text \<open>A decoded template image, as \<open>loadImage\<close> returns it.\<close>

record image =
  img_width :: nat
  img_height :: nat

section \<open>Font substitution\<close>

definition canvas_fontMap :: "(string \<times> string) list" where
  "canvas_fontMap =
   [(''Inter'', ''Arial''), (''Roboto'', ''Arial''), (''Open Sans'', ''Arial''),
    (''Lato'', ''Arial''), (''Montserrat'', ''Arial''), (''Source Sans Pro'', ''Arial''),
    (''Raleway'', ''Arial''), (''Ubuntu'', ''Arial''), (''Nunito'', ''Arial''),
    (''Poppins'', ''Arial''), (''Oswald'', ''Arial''), (''Mukti'', ''Arial''),
    (''Fira Sans'', ''Arial''), (''PT Sans'', ''Arial''), (''Dosis'', ''Arial''),
    (''Quicksand'', ''Arial''), (''Work Sans'', ''Arial''), (''Rubik'', ''Arial''),
    (''Barlow'', ''Arial''), (''Oxygen'', ''Arial''),
    (''Playfair Display'', ''Times New Roman''), (''Merriweather'', ''Times New Roman''),
    (''Lora'', ''Times New Roman''), (''PT Serif'', ''Times New Roman''),
    (''Crimson Text'', ''Times New Roman''), (''Libre Baskerville'', ''Times New Roman''),
    (''Source Serif Pro'', ''Times New Roman''), (''Cormorant Garamond'', ''Times New Roman''),
    (''EB Garamond'', ''Times New Roman''), (''Vollkorn'', ''Times New Roman''),
    (''Bitter'', ''Times New Roman''), (''Arvo'', ''Times New Roman''),
    (''Rokkitt'', ''Times New Roman''), (''Alegreya'', ''Times New Roman''),
    (''Cardo'', ''Times New Roman''),
    (''Fira Code'', ''Courier New''), (''Source Code Pro'', ''Courier New''),
    (''JetBrains Mono'', ''Courier New''), (''Roboto Mono'', ''Courier New''),
    (''Ubuntu Mono'', ''Courier New''), (''Space Mono'', ''Courier New''),
    (''Inconsolata'', ''Courier New''), (''Anonymous Pro'', ''Courier New''),
    (''Dancing Script'', ''Arial''), (''Pacifico'', ''Arial''), (''Lobster'', ''Arial''),
    (''Righteous'', ''Arial''), (''Fredoka One'', ''Arial''), (''Comfortaa'', ''Arial''),
    (''Kalam'', ''Arial''), (''Caveat'', ''Arial''), (''Satisfy'', ''Arial''),
    (''Great Vibes'', ''Arial''), (''Amatic SC'', ''Arial''), (''Bangers'', ''Arial''),
    (''Arial'', ''Arial''), (''Times New Roman'', ''Times New Roman''),
    (''Helvetica'', ''Arial''), (''Georgia'', ''Georgia''), (''Verdana'', ''Verdana''),
    (''Courier New'', ''Courier New'')]"

definition pdf_fontMap :: "(string \<times> string) list" where
  "pdf_fontMap =
   [(''Inter'', ''Helvetica''), (''Roboto'', ''Helvetica''), (''Open Sans'', ''Helvetica''),
    (''Lato'', ''Helvetica''), (''Montserrat'', ''Helvetica''),
    (''Source Sans Pro'', ''Helvetica''), (''Raleway'', ''Helvetica''),
    (''Ubuntu'', ''Helvetica''), (''Nunito'', ''Helvetica''), (''Poppins'', ''Helvetica''),
    (''Oswald'', ''Helvetica''), (''Mukti'', ''Helvetica''), (''Fira Sans'', ''Helvetica''),
    (''PT Sans'', ''Helvetica''), (''Dosis'', ''Helvetica''), (''Quicksand'', ''Helvetica''),
    (''Work Sans'', ''Helvetica''), (''Rubik'', ''Helvetica''), (''Barlow'', ''Helvetica''),
    (''Oxygen'', ''Helvetica''),
    (''Playfair Display'', ''Times-Roman''), (''Merriweather'', ''Times-Roman''),
    (''Lora'', ''Times-Roman''), (''PT Serif'', ''Times-Roman''),
    (''Crimson Text'', ''Times-Roman''), (''Libre Baskerville'', ''Times-Roman''),
    (''Source Serif Pro'', ''Times-Roman''), (''Cormorant Garamond'', ''Times-Roman''),
    (''EB Garamond'', ''Times-Roman''), (''Vollkorn'', ''Times-Roman''),
    (''Bitter'', ''Times-Roman''), (''Arvo'', ''Times-Roman''), (''Rokkitt'', ''Times-Roman''),
    (''Alegreya'', ''Times-Roman''), (''Cardo'', ''Times-Roman''),
    (''Fira Code'', ''Courier''), (''Source Code Pro'', ''Courier''),
    (''JetBrains Mono'', ''Courier''), (''Roboto Mono'', ''Courier''),
    (''Ubuntu Mono'', ''Courier''), (''Space Mono'', ''Courier''),
    (''Inconsolata'', ''Courier''), (''Anonymous Pro'', ''Courier''),
    (''Dancing Script'', ''Helvetica''), (''Pacifico'', ''Helvetica''),
    (''Lobster'', ''Helvetica''), (''Righteous'', ''Helvetica''),
    (''Fredoka One'', ''Helvetica''), (''Comfortaa'', ''Helvetica''),
    (''Kalam'', ''Helvetica''), (''Caveat'', ''Helvetica''), (''Satisfy'', ''Helvetica''),
    (''Great Vibes'', ''Helvetica''), (''Amatic SC'', ''Helvetica''),
    (''Bangers'', ''Helvetica''),
    (''Arial'', ''Helvetica''), (''Times New Roman'', ''Times-Roman''),
    (''Helvetica'', ''Helvetica''), (''Georgia'', ''Times-Roman''),
    (''Verdana'', ''Helvetica''), (''Courier New'', ''Courier'')]"

datatype font_target = Canvas | Pdf

definition getSystemFont :: "string \<Rightarrow> font_target \<Rightarrow> string" where
  "getSystemFont fontFamily target =
     (case map_of (case target of Canvas \<Rightarrow> canvas_fontMap | Pdf \<Rightarrow> pdf_fontMap) fontFamily of
        Some f \<Rightarrow> f
      | None \<Rightarrow> (case target of Pdf \<Rightarrow> ''Helvetica'' | Canvas \<Rightarrow> ''Arial''))"

section \<open>The two renderers\<close>

datatype error =
    DecodeError
  | CastError
  | TypeError
  | DrawError
  | WriteError
  | ENOENT
  | PngFailed error
  | PdfFailed error
  | GenerationFailed error

text \<open>One \<open>ctx.fillText\<close> call with the context properties set just before it.\<close>

record canvas_text =
  ct_fontWeight :: string
  ct_fontSize :: number
  ct_font :: string
  ct_fillStyle :: string
  ct_textAlign :: string
  ct_textBaseline :: string
  ct_value :: string
  ct_x :: number
  ct_y :: number

text \<open>One \<open>doc.text\<close> call with the font, size and colour set just before it.\<close>

record pdf_text =
  pt_font :: string
  pt_fontSize :: number
  pt_fillColor :: string
  pt_value :: string
  pt_x :: number
  pt_y :: number
  pt_align :: string

text \<open>What a generated file holds: the background image and the text drawn on it.\<close>

datatype file_content =
    PngFile image "canvas_text list"
  | PdfFile image "pdf_text list"
  | PartialFile

text \<open>
  The libraries the code calls (canvas, pdfkit, fs, mongoose) are not part of the
  repository; their outcomes are parameters: which paths decode to which image, which
  drawing calls throw, which image files pdfkit refuses to embed, for which paths
  encoding or writing the output fails, the byte size of an encoded file, and which
  strings cast to an ObjectId.
\<close>

record env =
  loadImage :: "string \<Rightarrow> image option"
  fillText_throws :: "canvas_text \<Rightarrow> bool"
  pdfText_throws :: "pdf_text \<Rightarrow> bool"
  pdfImage_throws :: "string \<Rightarrow> bool"
  write_throws :: "string \<Rightarrow> bool"
  encoded_size :: "file_content \<Rightarrow> nat"
  is_objectId :: "string \<Rightarrow> bool"

type_synonym files = "string \<Rightarrow> file_content option"

text \<open>\<open>placeholderValues[placeholder.type] || ''\<close>\<close>

definition resolve :: "(ptype \<Rightarrow> string option) \<Rightarrow> ptype \<Rightarrow> string" where
  "resolve placeholderValues t = or_string (placeholderValues t) []"

subsection \<open>generatePNG\<close>

definition png_display :: "image \<Rightarrow> containerDimensions option \<Rightarrow> number \<times> number" where
  "png_display templateImage cd =
     (let actualWidth = Fin (of_nat (img_width templateImage));
          actualHeight = Fin (of_nat (img_height templateImage));
          frontendDisplayWidth =
            or_number (case cd of None \<Rightarrow> None | Some c \<Rightarrow> map_option Fin (width c)) (Fin 800);
          frontendDisplayHeight =
            or_number (case cd of None \<Rightarrow> None | Some c \<Rightarrow> map_option Fin (height c))
              (js_div (js_mul frontendDisplayWidth actualHeight) actualWidth)
      in (frontendDisplayWidth, frontendDisplayHeight))"

definition png_scale :: "image \<Rightarrow> containerDimensions option \<Rightarrow> number \<times> number" where
  "png_scale templateImage cd =
     (let actualWidth = Fin (of_nat (img_width templateImage));
          actualHeight = Fin (of_nat (img_height templateImage));
          (frontendDisplayWidth, frontendDisplayHeight) = png_display templateImage cd;
          scaleX = js_div actualWidth frontendDisplayWidth;
          scaleY = js_div actualHeight frontendDisplayHeight
      in (scaleX, scaleY))"

text \<open>The scaled \<open>(x, y, fontSize)\<close> of one placeholder.\<close>

definition png_scaled :: "number \<times> number \<Rightarrow> placeholder \<Rightarrow> number \<times> number \<times> number" where
  "png_scaled sc p =
     (let (scaleX, scaleY) = sc;
          scaledX = js_mul (Fin (pl_x p)) scaleX;
          scaledY = js_mul (Fin (pl_y p)) scaleY;
          scaledFontSize = js_mul (or_number (map_option Fin (pl_fontSize p)) (Fin 24)) scaleX
      in (scaledX, scaledY, scaledFontSize))"

definition png_text :: "number \<times> number \<Rightarrow> placeholder \<Rightarrow> string \<Rightarrow> canvas_text" where
  "png_text sc p v =
     (let (scaledX, scaledY, scaledFontSize) = png_scaled sc p;
          fontFamily = or_string (pl_fontFamily p) ''Arial'';
          systemFont = getSystemFont fontFamily Canvas;
          fontWeight = or_string (pl_fontWeight p) ''normal''
      in \<lparr> ct_fontWeight = fontWeight, ct_fontSize = scaledFontSize, ct_font = systemFont,
           ct_fillStyle = or_string (pl_color p) ''#000000'',
           ct_textAlign = or_string (pl_textAlign p) ''left'',
           ct_textBaseline = ''top'', ct_value = v, ct_x = scaledX, ct_y = scaledY \<rparr>)"

text \<open>
  The \<open>forEach\<close> over the placeholders. Reading a property of an absent
  \<open>placeholderValues\<close> throws a TypeError; a throwing \<open>fillText\<close> ends the loop.
\<close>

fun png_forEach ::
  "env \<Rightarrow> number \<times> number \<Rightarrow> (ptype \<Rightarrow> string option) option \<Rightarrow> placeholder list
     \<Rightarrow> error + canvas_text list" where
  "png_forEach e sc vals [] = Inr []"
| "png_forEach e sc vals (p # ps) =
     (case vals of
        None \<Rightarrow> Inl TypeError
      | Some m \<Rightarrow>
          (let v = resolve m (pl_type p) in
           if v \<noteq> [] then
             (let t = png_text sc p v in
              if fillText_throws e t then Inl DrawError
              else (case png_forEach e sc vals ps of
                      Inl err \<Rightarrow> Inl err
                    | Inr ts \<Rightarrow> Inr (t # ts)))
           else png_forEach e sc vals ps))"

definition outputDir :: string where
  "outputDir = ''generated/''"

definition generatePNG ::
  "env \<Rightarrow> files \<Rightarrow> string \<Rightarrow> template \<Rightarrow> (ptype \<Rightarrow> string option) option \<Rightarrow> string
     \<Rightarrow> containerDimensions option \<Rightarrow> (error + string) \<times> files" where
  "generatePNG e fs certificateId tpl placeholderValues templateImagePath cd =
     (case loadImage e templateImagePath of
        None \<Rightarrow> (Inl (PngFailed DecodeError), fs)
      | Some templateImage \<Rightarrow>
          (case png_forEach e (png_scale templateImage cd) placeholderValues (tpl_placeholders tpl) of
             Inl err \<Rightarrow> (Inl (PngFailed err), fs)
           | Inr ts \<Rightarrow>
               (let pngPath = outputDir @ certificateId @ ''.png'' in
                if write_throws e pngPath then (Inl (PngFailed WriteError), fs)
                else (Inr pngPath, fs(pngPath \<mapsto> PngFile templateImage ts)))))"

subsection \<open>generatePDF\<close>

definition pdf_display :: "image \<Rightarrow> containerDimensions option \<Rightarrow> number \<times> number" where
  "pdf_display templateImage cd =
     (let actualWidth = Fin (of_nat (img_width templateImage));
          actualHeight = Fin (of_nat (img_height templateImage));
          frontendDisplayWidth =
            or_number (case cd of None \<Rightarrow> None | Some c \<Rightarrow> map_option Fin (width c)) (Fin 800);
          frontendDisplayHeight =
            or_number (case cd of None \<Rightarrow> None | Some c \<Rightarrow> map_option Fin (height c))
              (js_div (js_mul frontendDisplayWidth actualHeight) actualWidth)
      in (frontendDisplayWidth, frontendDisplayHeight))"

definition pdf_scale :: "image \<Rightarrow> containerDimensions option \<Rightarrow> number \<times> number" where
  "pdf_scale templateImage cd =
     (let actualWidth = Fin (of_nat (img_width templateImage));
          actualHeight = Fin (of_nat (img_height templateImage));
          (frontendDisplayWidth, frontendDisplayHeight) = pdf_display templateImage cd;
          scaleX = js_div actualWidth frontendDisplayWidth;
          scaleY = js_div actualHeight frontendDisplayHeight
      in (scaleX, scaleY))"

definition pdf_scaled :: "number \<times> number \<Rightarrow> placeholder \<Rightarrow> number \<times> number \<times> number" where
  "pdf_scaled sc p =
     (let (scaleX, scaleY) = sc;
          scaledX = js_mul (Fin (pl_x p)) scaleX;
          scaledY = js_mul (Fin (pl_y p)) scaleY;
          scaledFontSize = js_mul (or_number (map_option Fin (pl_fontSize p)) (Fin 24)) scaleX
      in (scaledX, scaledY, scaledFontSize))"

definition pdf_text_of :: "number \<times> number \<Rightarrow> placeholder \<Rightarrow> string \<Rightarrow> pdf_text" where
  "pdf_text_of sc p v =
     (let (scaledX, scaledY, scaledFontSize) = pdf_scaled sc p;
          fontFamily = or_string (pl_fontFamily p) ''Arial'';
          systemFont = getSystemFont fontFamily Pdf
      in \<lparr> pt_font = systemFont, pt_fontSize = scaledFontSize,
           pt_fillColor = or_string (pl_color p) ''#000000'',
           pt_value = v, pt_x = scaledX, pt_y = scaledY,
           pt_align = or_string (pl_textAlign p) ''left'' \<rparr>)"

fun pdf_forEach ::
  "env \<Rightarrow> number \<times> number \<Rightarrow> (ptype \<Rightarrow> string option) option \<Rightarrow> placeholder list
     \<Rightarrow> error + pdf_text list" where
  "pdf_forEach e sc vals [] = Inr []"
| "pdf_forEach e sc vals (p # ps) =
     (case vals of
        None \<Rightarrow> Inl TypeError
      | Some m \<Rightarrow>
          (let v = resolve m (pl_type p) in
           if v \<noteq> [] then
             (let t = pdf_text_of sc p v in
              if pdfText_throws e t then Inl DrawError
              else (case pdf_forEach e sc vals ps of
                      Inl err \<Rightarrow> Inl err
                    | Inr ts \<Rightarrow> Inr (t # ts)))
           else pdf_forEach e sc vals ps))"

text \<open>
  The write stream is opened on \<open>pdfPath\<close> before anything is drawn, so a failure after
  the image has been decoded leaves a partial file behind. The template file is decoded
  once for its dimensions and then embedded by \<open>doc.image\<close>, which may refuse it.
\<close>

definition generatePDF ::
  "env \<Rightarrow> files \<Rightarrow> string \<Rightarrow> template \<Rightarrow> (ptype \<Rightarrow> string option) option \<Rightarrow> string
     \<Rightarrow> containerDimensions option \<Rightarrow> (error + string) \<times> files" where
  "generatePDF e fs certificateId tpl placeholderValues templateImagePath cd =
     (let pdfPath = outputDir @ certificateId @ ''.pdf'' in
      case loadImage e templateImagePath of
        None \<Rightarrow> (Inl (PdfFailed DecodeError), fs)
      | Some templateImage \<Rightarrow>
          if pdfImage_throws e templateImagePath
          then (Inl (PdfFailed DrawError), fs(pdfPath \<mapsto> PartialFile))
          else
            (case pdf_forEach e (pdf_scale templateImage cd) placeholderValues
                    (tpl_placeholders tpl) of
               Inl err \<Rightarrow> (Inl (PdfFailed err), fs(pdfPath \<mapsto> PartialFile))
             | Inr ts \<Rightarrow>
                 if write_throws e pdfPath
                 then (Inl (PdfFailed WriteError), fs(pdfPath \<mapsto> PartialFile))
                 else (Inr pdfPath, fs(pdfPath \<mapsto> PdfFile templateImage ts))))"

section \<open>Strings\<close>

definition digit_char :: "nat \<Rightarrow> char" where
  "digit_char d = char_of (48 + d)"

text \<open>\<open>Number.prototype.toString\<close> on a non-negative integer (below \<open>10^21\<close>).\<close>

fun toString :: "nat \<Rightarrow> string" where
  "toString n = (if n < 10 then [digit_char n] else toString (n div 10) @ [digit_char (n mod 10)])"

declare toString.simps [simp del]

definition padStart :: "nat \<Rightarrow> char \<Rightarrow> string \<Rightarrow> string" where
  "padStart n c s = replicate (n - length s) c @ s"

fun split_on :: "char \<Rightarrow> string \<Rightarrow> string list" where
  "split_on c [] = [[]]"
| "split_on c (x # xs) =
     (if x = c then [] # split_on c xs
      else (case split_on c xs of
              [] \<Rightarrow> [[x]]
            | h # t \<Rightarrow> (x # h) # t))"

definition is_digit :: "char \<Rightarrow> bool" where
  "is_digit c = (48 \<le> (of_char c :: nat) \<and> (of_char c :: nat) \<le> 57)"

definition is_hex :: "char \<Rightarrow> bool" where
  "is_hex c = (is_digit c \<or> (65 \<le> (of_char c :: nat) \<and> (of_char c :: nat) \<le> 70) \<or>
               (97 \<le> (of_char c :: nat) \<and> (of_char c :: nat) \<le> 102))"

definition is_alpha :: "char \<Rightarrow> bool" where
  "is_alpha c = ((65 \<le> (of_char c :: nat) \<and> (of_char c :: nat) \<le> 90) \<or>
                 (97 \<le> (of_char c :: nat) \<and> (of_char c :: nat) \<le> 122))"

text \<open>ASCII white space (the non-ASCII spaces of \<open>\s\<close> are not modelled).\<close>

definition is_space :: "char \<Rightarrow> bool" where
  "is_space c = ((of_char c :: nat) \<in> {9, 10, 11, 12, 13, 32})"

definition trim :: "string \<Rightarrow> string" where
  "trim s = rev (dropWhile is_space (rev (dropWhile is_space s)))"

text \<open>
  \<open>parseInt\<close> on an optional string: the value of the leading decimal digits, NaN
  (\<open>None\<close>) when there are none or the argument is undefined. Leading white space and
  a sign are not modelled: stored identifiers match the schema's pattern.
\<close>

definition parseInt :: "string option \<Rightarrow> nat option" where
  "parseInt v =
     (case v of
        None \<Rightarrow> None
      | Some s \<Rightarrow>
          (let ds = takeWhile is_digit s
           in if ds = [] then None
              else Some (foldl (\<lambda>n c. 10 * n + ((of_char c :: nat) - 48)) 0 ds)))"

definition starts_with :: "string \<Rightarrow> string \<Rightarrow> bool" where
  "starts_with p s = (take (length p) s = p)"

text \<open>The database's order on strings: byte-wise lexicographic.\<close>

fun str_less :: "string \<Rightarrow> string \<Rightarrow> bool" where
  "str_less [] [] = False"
| "str_less [] (y # ys) = True"
| "str_less (x # xs) [] = False"
| "str_less (x # xs) (y # ys) =
     ((of_char x :: nat) < of_char y \<or> (x = y \<and> str_less xs ys))"

definition nth_opt :: "'a list \<Rightarrow> nat \<Rightarrow> 'a option" where
  "nth_opt xs i = (if i < length xs then Some (xs ! i) else None)"

section \<open>Certificates\<close>

datatype status = Pending | Generated | Failed | Archived

record file_meta =
  fm_filename :: string
  fm_path :: string
  fm_size :: nat
  fm_url :: string

record generatedFiles =
  gf_pdf :: "file_meta option"
  gf_png :: "file_meta option"

record templateSnapshot =
  ts_name :: string
  ts_filename :: string
  ts_placeholders :: "placeholder list"
  ts_dimensions :: dimensions

record certificate =
  cert_oid :: string
  certificateId :: string
  participantName :: string
  cert_template :: string
  templateSnapshot :: templateSnapshot
  generatedFiles :: generatedFiles
  status :: status
  generationTime :: nat
  downloadCount :: nat
  createdBy :: string
  isActive :: bool
  cert_notes :: string
  cert_tags :: "string list"

text \<open>
  The schema declares neither \<open>pdfPath\<close> nor \<open>pngPath\<close> (the file paths live under
  \<open>generatedFiles.pdf.path\<close> and \<open>generatedFiles.png.path\<close>), so reading either
  property of a certificate document yields undefined.
\<close>

definition cert_pdfPath :: "certificate \<Rightarrow> string option" where
  "cert_pdfPath c = None"

definition cert_pngPath :: "certificate \<Rightarrow> string option" where
  "cert_pngPath c = None"

subsection \<open>generateNextId\<close>

text \<open>\<open>findOne(...).sort({ certificateId: -1 })\<close>: the greatest identifier in string order.\<close>

fun latest :: "certificate list \<Rightarrow> certificate option" where
  "latest [] = None"
| "latest (c # cs) =
     (case latest cs of
        None \<Rightarrow> Some c
      | Some d \<Rightarrow> if str_less (certificateId c) (certificateId d) then Some d else Some c)"

definition generateNextId :: "nat \<Rightarrow> certificate list \<Rightarrow> string" where
  "generateNextId currentYear certs =
     (let prefix = ''CERT-'' @ toString currentYear @ ''-'';
          latestCert = latest (filter (\<lambda>c. starts_with prefix (certificateId c)) certs);
          nextNumber =
            (case latestCert of
               None \<Rightarrow> Some 1
             | Some c \<Rightarrow>
                 map_option (\<lambda>lastNumber. lastNumber + 1)
                   (parseInt (nth_opt (split_on CHR ''-'' (certificateId c)) 2)));
          paddedNumber =
            padStart 3 CHR ''0'' (case nextNumber of None \<Rightarrow> ''NaN'' | Some n \<Rightarrow> toString n)
      in prefix @ paddedNumber)"

text \<open>The sequence number an identifier carries, used to state what the next one should be.\<close>

definition seq_of :: "string \<Rightarrow> nat" where
  "seq_of cid = (case parseInt (nth_opt (split_on CHR ''-'' cid) 2) of None \<Rightarrow> 0 | Some n \<Rightarrow> n)"

section \<open>The server state\<close>

text \<open>
  The calls a request handler makes to its collaborators, in order. The list is a
  record of what happened; no handler reads it.
\<close>

datatype call =
    CallGenerateNextId string
  | CallSave certificate
  | CallIncrementUsage string
  | CallGeneratePNG string
  | CallGeneratePDF string

record state =
  st_templates :: "template list"
  st_certificates :: "certificate list"
  st_files :: files
  st_calls :: "call list"

section \<open>generateCertificate\<close>

record file_info =
  fi_path :: string
  fi_filename :: string
  fi_size :: nat

definition stat :: "env \<Rightarrow> files \<Rightarrow> string \<Rightarrow> error + nat" where
  "stat e fs p = (case fs p of None \<Rightarrow> Inl ENOENT | Some c \<Rightarrow> Inr (encoded_size e c))"

text \<open>The result is \<open>(pdf, png)\<close>; the PNG is rendered first, the PDF only after it.\<close>

definition generateCertificate ::
  "env \<Rightarrow> files \<Rightarrow> string \<Rightarrow> template \<Rightarrow> (ptype \<Rightarrow> string option) option
     \<Rightarrow> containerDimensions option
     \<Rightarrow> (error + file_info \<times> file_info) \<times> files \<times> call list" where
  "generateCertificate e fs cid tpl placeholderValues cd =
     (let templateImagePath = ''uploads/'' @ tpl_filename tpl in
      case generatePNG e fs cid tpl placeholderValues templateImagePath cd of
        (Inl err, fs1) \<Rightarrow> (Inl (GenerationFailed err), fs1, [CallGeneratePNG cid])
      | (Inr pngPath, fs1) \<Rightarrow>
          (case generatePDF e fs1 cid tpl placeholderValues templateImagePath cd of
             (Inl err, fs2) \<Rightarrow>
               (Inl (GenerationFailed err), fs2, [CallGeneratePNG cid, CallGeneratePDF cid])
           | (Inr pdfPath, fs2) \<Rightarrow>
               (case stat e fs2 pdfPath of
                  Inl err \<Rightarrow>
                    (Inl (GenerationFailed err), fs2, [CallGeneratePNG cid, CallGeneratePDF cid])
                | Inr pdfSize \<Rightarrow>
                    (case stat e fs2 pngPath of
                       Inl err \<Rightarrow>
                         (Inl (GenerationFailed err), fs2,
                          [CallGeneratePNG cid, CallGeneratePDF cid])
                     | Inr pngSize \<Rightarrow>
                         (Inr (\<lparr> fi_path = pdfPath, fi_filename = cid @ ''.pdf'',
                                  fi_size = pdfSize \<rparr>,
                               \<lparr> fi_path = pngPath, fi_filename = cid @ ''.png'',
                                  fi_size = pngSize \<rparr>),
                          fs2, [CallGeneratePNG cid, CallGeneratePDF cid])))))"

section \<open>POST /api/certificate/create\<close>

record create_body =
  rq_participantName :: string
  rq_templateId :: string
  rq_placeholderValues :: "(ptype \<Rightarrow> string option) option"
  rq_containerDimensions :: "containerDimensions option"
  rq_notes :: "string option"
  rq_tags :: "string list option"

record response =
  res_status :: nat
  res_success :: bool
  res_message :: string
  res_certificate :: "certificate option"

definition failure :: "nat \<Rightarrow> string \<Rightarrow> response" where
  "failure code msg =
     \<lparr> res_status = code, res_success = False, res_message = msg, res_certificate = None \<rparr>"

text \<open>\<open>/^[a-zA-Z\s.'-]+$/\<close> with the length bounds 2 and 100.\<close>

definition name_char :: "char \<Rightarrow> bool" where
  "name_char c = (is_alpha c \<or> is_space c \<or> (of_char c :: nat) \<in> {46, 39, 45})"

definition valid_participantName :: "string \<Rightarrow> bool" where
  "valid_participantName n = (2 \<le> length n \<and> length n \<le> 100 \<and> list_all name_char n)"

text \<open>The middleware in front of the handler: it trims the name, then checks it.\<close>

definition validateCertificateCreation :: "string \<Rightarrow> bool" where
  "validateCertificateCreation n = valid_participantName (trim n)"

text \<open>\<open>/^CERT-\d{4}-\d{3,}$/\<close>\<close>

definition valid_certificateId :: "string \<Rightarrow> bool" where
  "valid_certificateId cid =
     (case split_on CHR ''-'' cid of
        [a, b, c] \<Rightarrow>
          a = ''CERT'' \<and> length b = 4 \<and> list_all is_digit b \<and> 3 \<le> length c \<and> list_all is_digit c
      | _ \<Rightarrow> False)"

text \<open>The schema's validators that run when a certificate document is saved.\<close>

definition validates :: "certificate \<Rightarrow> bool" where
  "validates c =
     (valid_certificateId (certificateId c) \<and> valid_participantName (participantName c) \<and>
      length (cert_notes c) \<le> 1000 \<and> list_all (\<lambda>t. length t \<le> 30) (cert_tags c))"

datatype save_error = ValidationError | DuplicateKey

text \<open>Saving a new document: validation first, then the insert under the unique indexes.\<close>

definition save_new :: "certificate \<Rightarrow> certificate list \<Rightarrow> save_error + certificate list" where
  "save_new c certs =
     (if \<not> validates c then Inl ValidationError
      else if list_ex (\<lambda>d. certificateId d = certificateId c \<or> cert_oid d = cert_oid c) certs
      then Inl DuplicateKey
      else Inr (certs @ [c]))"

text \<open>Saving a document that is already stored replaces it.\<close>

definition save_existing :: "certificate \<Rightarrow> certificate list \<Rightarrow> certificate list" where
  "save_existing c certs = map (\<lambda>d. if cert_oid d = cert_oid c then c else d) certs"

definition incrementUsage :: "template \<Rightarrow> template list \<Rightarrow> template list" where
  "incrementUsage tpl tpls =
     map (\<lambda>t. if tpl_oid t = tpl_oid tpl then t\<lparr> tpl_usageCount := tpl_usageCount t + 1 \<rparr> else t)
       tpls"

definition no_files :: generatedFiles where
  "no_files = \<lparr> gf_pdf = None, gf_png = None \<rparr>"

text \<open>\<open>new Certificate({...})\<close> with the schema's defaults and trimming setters.\<close>

definition new_certificate ::
  "string \<Rightarrow> string \<Rightarrow> string \<Rightarrow> create_body \<Rightarrow> template \<Rightarrow> certificate" where
  "new_certificate newOid adminId cid body tpl =
     \<lparr> cert_oid = newOid,
       certificateId = trim cid,
       participantName = trim (rq_participantName body),
       cert_template = tpl_oid tpl,
       templateSnapshot =
         \<lparr> ts_name = tpl_name tpl, ts_filename = tpl_filename tpl,
           ts_placeholders = tpl_placeholders tpl, ts_dimensions = tpl_dimensions tpl \<rparr>,
       generatedFiles = no_files,
       status = Pending,
       generationTime = 0,
       downloadCount = 0,
       createdBy = adminId,
       isActive = True,
       cert_notes = or_string (map_option trim (rq_notes body)) [],
       cert_tags = map trim (case rq_tags body of None \<Rightarrow> [] | Some ts \<Rightarrow> ts) \<rparr>"

text \<open>
  \<open>Template.findOne({ _id, createdBy, isActive: true })\<close>. An id that does not cast to
  an ObjectId makes the query throw.
\<close>

definition findTemplate ::
  "env \<Rightarrow> string \<Rightarrow> string \<Rightarrow> template list \<Rightarrow> error + template option" where
  "findTemplate e templateId adminId tpls =
     (if \<not> is_objectId e templateId then Inl CastError
      else Inr (find (\<lambda>t. tpl_oid t = templateId \<and> tpl_createdBy t = adminId \<and> tpl_isActive t)
                  tpls))"

text \<open>The inner \<open>try\<close>/\<open>catch\<close> around the generator and the second save.\<close>

definition create_files ::
  "env \<Rightarrow> nat \<Rightarrow> create_body \<Rightarrow> template \<Rightarrow> certificate \<Rightarrow> state \<Rightarrow> response \<times> state" where
  "create_files e elapsed body tpl cert s =
     (case generateCertificate e (st_files s) (certificateId cert) tpl
             (rq_placeholderValues body) (rq_containerDimensions body) of
        (result, fs', calls) \<Rightarrow>
          (let cert' =
                 (case result of
                    Inr (pdf, png) \<Rightarrow>
                      cert\<lparr> generationTime := elapsed, status := Generated,
                            generatedFiles :=
                              \<lparr> gf_pdf = Some \<lparr> fm_filename = fi_filename pdf, fm_path = fi_path pdf,
                                                 fm_size = fi_size pdf,
                                                 fm_url = ''/api/certificate/'' @ cert_oid cert
                                                            @ ''/download/pdf'' \<rparr>,
                                gf_png = Some \<lparr> fm_filename = fi_filename png, fm_path = fi_path png,
                                                 fm_size = fi_size png,
                                                 fm_url = ''/api/certificate/'' @ cert_oid cert
                                                            @ ''/download/png'' \<rparr> \<rparr> \<rparr>
                  | Inl genError \<Rightarrow> cert\<lparr> status := Failed, generatedFiles := no_files \<rparr>)
           in (\<lparr> res_status = 201, res_success = True,
                 res_message = ''Certificate created successfully'',
                 res_certificate = Some cert' \<rparr>,
               s\<lparr> st_certificates := save_existing cert' (st_certificates s),
                  st_files := fs',
                  st_calls := st_calls s @ calls @ [CallSave cert'] \<rparr>)))"

text \<open>The state once the new record is stored and the template's usage counter is incremented.\<close>

definition record_saved ::
  "string \<Rightarrow> certificate \<Rightarrow> template \<Rightarrow> certificate list \<Rightarrow> state \<Rightarrow> state" where
  "record_saved cid cert tpl certs1 s =
     s\<lparr> st_certificates := certs1,
        st_templates := incrementUsage tpl (st_templates s),
        st_calls := st_calls s @
          [CallGenerateNextId cid, CallSave cert, CallIncrementUsage (tpl_oid tpl)] \<rparr>"

text \<open>Identifier assignment, the first save and the usage counter.\<close>

definition create_record ::
  "env \<Rightarrow> nat \<Rightarrow> nat \<Rightarrow> string \<Rightarrow> string \<Rightarrow> create_body \<Rightarrow> template \<Rightarrow> state
     \<Rightarrow> response \<times> state" where
  "create_record e currentYear elapsed newOid adminId body tpl s =
     (let cid = generateNextId currentYear (st_certificates s);
          cert = new_certificate newOid adminId cid body tpl
      in case save_new cert (st_certificates s) of
           Inl DuplicateKey \<Rightarrow>
             (failure 400 ''Certificate ID already exists. Please try again.'',
              s\<lparr> st_calls := st_calls s @ [CallGenerateNextId cid, CallSave cert] \<rparr>)
         | Inl ValidationError \<Rightarrow>
             (failure 500 ''Server error during certificate creation'',
              s\<lparr> st_calls := st_calls s @ [CallGenerateNextId cid, CallSave cert] \<rparr>)
         | Inr certs1 \<Rightarrow>
             create_files e elapsed body tpl cert (record_saved cid cert tpl certs1 s))"

definition create ::
  "env \<Rightarrow> nat \<Rightarrow> nat \<Rightarrow> string \<Rightarrow> string \<Rightarrow> create_body \<Rightarrow> state \<Rightarrow> response \<times> state" where
  "create e currentYear elapsed newOid adminId body s =
     (if \<not> validateCertificateCreation (rq_participantName body)
      then (failure 400 ''Validation failed'', s)
      else
        (case findTemplate e (rq_templateId body) adminId (st_templates s) of
           Inl err \<Rightarrow> (failure 500 ''Server error during certificate creation'', s)
         | Inr None \<Rightarrow> (failure 404 ''Template not found or access denied'', s)
         | Inr (Some tpl) \<Rightarrow>
             if tpl_placeholders tpl = []
             then (failure 400
                     ''Template must have placeholders configured before generating certificates'', s)
             else
               (let hasNamePlaceholder = list_ex (\<lambda>p. pl_type p = PName) (tpl_placeholders tpl);
                    hasIdPlaceholder = list_ex (\<lambda>p. pl_type p = PId) (tpl_placeholders tpl)
                in if \<not> hasNamePlaceholder \<or> \<not> hasIdPlaceholder
                   then (failure 400
                           ''Template must have both name and ID placeholders configured'', s)
                   else create_record e currentYear elapsed newOid adminId body tpl s)))"

section \<open>GET /api/certificate/:id/download/:format\<close>

datatype download_result =
    DownloadError nat string
  | DownloadFile string string nat string

definition getFileInfo :: "env \<Rightarrow> files \<Rightarrow> string \<Rightarrow> string \<Rightarrow> file_info \<times> bool" where
  "getFileInfo e fs cid format =
     (let filePath = outputDir @ cid @ ''.'' @ format
      in case stat e fs filePath of
           Inr sz \<Rightarrow>
             (\<lparr> fi_path = filePath, fi_filename = cid @ ''.'' @ format, fi_size = sz \<rparr>, True)
         | Inl err \<Rightarrow>
             (\<lparr> fi_path = filePath, fi_filename = cid @ ''.'' @ format, fi_size = 0 \<rparr>, False))"

text \<open>\<open>Certificate.findOne({ _id, createdBy, isActive: true })\<close>\<close>

definition findCertificate ::
  "env \<Rightarrow> string \<Rightarrow> string \<Rightarrow> certificate list \<Rightarrow> error + certificate option" where
  "findCertificate e oid adminId certs =
     (if \<not> is_objectId e oid then Inl CastError
      else Inr (find (\<lambda>c. cert_oid c = oid \<and> createdBy c = adminId \<and> isActive c) certs))"

definition incrementDownloadCount :: "certificate \<Rightarrow> certificate list \<Rightarrow> certificate list" where
  "incrementDownloadCount c certs =
     map (\<lambda>d. if cert_oid d = cert_oid c then d\<lparr> downloadCount := downloadCount d + 1 \<rparr> else d)
       certs"

definition download ::
  "env \<Rightarrow> string \<Rightarrow> string \<Rightarrow> string \<Rightarrow> state \<Rightarrow> download_result \<times> state" where
  "download e adminId oid format s =
     (if format \<noteq> ''pdf'' \<and> format \<noteq> ''png''
      then (DownloadError 400 ''Invalid format. Supported formats: pdf, png'', s)
      else
        (case findCertificate e oid adminId (st_certificates s) of
           Inl err \<Rightarrow> (DownloadError 500 ''Server error during certificate download'', s)
         | Inr None \<Rightarrow> (DownloadError 404 ''Certificate not found or access denied'', s)
         | Inr (Some cert) \<Rightarrow>
             if status cert \<noteq> Generated
             then (DownloadError 400 ''Certificate is not ready for download'', s)
             else
               (case (if format = ''pdf'' then gf_pdf (generatedFiles cert)
                      else gf_png (generatedFiles cert)) of
                  None \<Rightarrow>
                    (DownloadError 404
                       ((if format = ''pdf'' then ''PDF'' else ''PNG'') @ '' file not found''), s)
                | Some fileInfo \<Rightarrow>
                    (case getFileInfo e (st_files s) (certificateId cert) format of
                       (actualFileInfo, exists) \<Rightarrow>
                         if \<not> exists
                         then (DownloadError 404
                                 ((if format = ''pdf'' then ''PDF'' else ''PNG'')
                                    @ '' file not found on disk''), s)
                         else
                           (DownloadFile
                              (if format = ''pdf'' then ''application/pdf'' else ''image/png'')
                              (fm_filename fileInfo) (fi_size actualFileInfo)
                              (fi_path actualFileInfo),
                            s\<lparr> st_certificates :=
                                 incrementDownloadCount cert (st_certificates s) \<rparr>)))))"

section \<open>DELETE /api/certificate/bulk\<close>

record bulk_response =
  br_status :: nat
  br_success :: bool
  br_message :: string
  br_deletedCount :: "nat option"
  br_filesDeleted :: "nat option"

text \<open>\<open>fs.unlink\<close>: removing a file that is not there throws.\<close>

definition unlink :: "files \<Rightarrow> string \<Rightarrow> files option" where
  "unlink fs p = (if fs p = None then None else Some (fs(p := None)))"

text \<open>
  The body of the loop over the certificates found: both deletions sit in one
  \<open>try\<close>, so a throwing \<open>unlink\<close> skips what is left for that certificate.
\<close>

definition delete_cert_files :: "certificate \<Rightarrow> files \<times> nat \<Rightarrow> files \<times> nat" where
  "delete_cert_files c acc =
     (case acc of
        (fs, filesDeleted) \<Rightarrow>
          (case (case cert_pdfPath c of
                   None \<Rightarrow> Some (fs, filesDeleted)
                 | Some p \<Rightarrow> map_option (\<lambda>fs1. (fs1, filesDeleted + 1)) (unlink fs p)) of
             None \<Rightarrow> (fs, filesDeleted)
           | Some (fs1, n1) \<Rightarrow>
               (case cert_pngPath c of
                  None \<Rightarrow> (fs1, n1)
                | Some q \<Rightarrow>
                    (case unlink fs1 q of
                       None \<Rightarrow> (fs1, n1)
                     | Some fs2 \<Rightarrow> (fs2, n1 + 1)))))"

text \<open>
  The documents the handler selects. No document has an \<open>isArchived\<close> field, so the
  conditions on it hold for every document.
\<close>

definition bulk_matches :: "string \<Rightarrow> certificate \<Rightarrow> bool" where
  "bulk_matches adminId c = (createdBy c = adminId \<and> isActive c)"

definition bulkDelete :: "string \<Rightarrow> string option \<Rightarrow> state \<Rightarrow> bulk_response \<times> state" where
  "bulkDelete adminId confirmText s =
     (if confirmText \<noteq> Some ''DELETE ALL CERTIFICATES''
      then (\<lparr> br_status = 400, br_success = False,
               br_message =
                 ''Invalid confirmation text. Please type \"DELETE ALL CERTIFICATES\" to confirm.'',
               br_deletedCount = None, br_filesDeleted = None \<rparr>, s)
      else
        (let certificates = filter (bulk_matches adminId) (st_certificates s)
         in if length certificates = 0
            then (\<lparr> br_status = 200, br_success = True,
                     br_message = ''No certificates found to delete'',
                     br_deletedCount = Some 0, br_filesDeleted = None \<rparr>, s)
            else
              (case foldl (\<lambda>acc c. delete_cert_files c acc) (st_files s, 0) certificates of
                 (fs', filesDeleted) \<Rightarrow>
                   (let remaining = filter (\<lambda>c. \<not> bulk_matches adminId c) (st_certificates s);
                        deletedCount = length (st_certificates s) - length remaining
                    in (\<lparr> br_status = 200, br_success = True,
                          br_message =
                            ''Successfully deleted '' @ toString deletedCount @ '' certificates'',
                          br_deletedCount = Some deletedCount,
                          br_filesDeleted = Some filesDeleted \<rparr>,
                        s\<lparr> st_certificates := remaining, st_files := fs' \<rparr>)))))"

section \<open>Notions the statements use\<close>

text \<open>Both renderers ran to completion: the PNG renderer, then the PDF renderer.\<close>

definition renderers_completed ::
  "env \<Rightarrow> files \<Rightarrow> string \<Rightarrow> template \<Rightarrow> (ptype \<Rightarrow> string option) option
     \<Rightarrow> containerDimensions option \<Rightarrow> bool" where
  "renderers_completed e fs cid tpl placeholderValues cd =
     (case generatePNG e fs cid tpl placeholderValues (''uploads/'' @ tpl_filename tpl) cd of
        (Inl err, fs1) \<Rightarrow> False
      | (Inr pngPath, fs1) \<Rightarrow>
          (case generatePDF e fs1 cid tpl placeholderValues (''uploads/'' @ tpl_filename tpl) cd of
             (Inl err, fs2) \<Rightarrow> False
           | (Inr pdfPath, fs2) \<Rightarrow> True))"

text \<open>
  The value a placeholder is drawn with, and the placeholders that are drawn: those whose
  value is not empty.
\<close>

definition value_of :: "(ptype \<Rightarrow> string option) option \<Rightarrow> placeholder \<Rightarrow> string" where
  "value_of placeholderValues p =
     (case placeholderValues of None \<Rightarrow> [] | Some m \<Rightarrow> resolve m (pl_type p))"

definition drawn ::
  "(ptype \<Rightarrow> string option) option \<Rightarrow> placeholder list \<Rightarrow> placeholder list" where
  "drawn placeholderValues ps = filter (\<lambda>p. value_of placeholderValues p \<noteq> []) ps"

text \<open>What a drawn text says and where: its string, x, y and font size.\<close>

definition canvas_placement :: "canvas_text \<Rightarrow> string \<times> number \<times> number \<times> number" where
  "canvas_placement t = (ct_value t, ct_x t, ct_y t, ct_fontSize t)"

definition pdf_placement :: "pdf_text \<Rightarrow> string \<times> number \<times> number \<times> number" where
  "pdf_placement t = (pt_value t, pt_x t, pt_y t, pt_fontSize t)"

text \<open>
  The identifier the specification describes: the sequence number is one more than the
  highest sequence number among the identifiers of the current year, 1 when there is none.
\<close>

definition highest_seq :: "nat \<Rightarrow> certificate list \<Rightarrow> nat" where
  "highest_seq currentYear certs =
     fold max
       (map (\<lambda>c. seq_of (certificateId c))
          (filter (\<lambda>c. starts_with (''CERT-'' @ toString currentYear @ ''-'') (certificateId c)) certs))
       0"

definition spec_nextId :: "nat \<Rightarrow> certificate list \<Rightarrow> string" where
  "spec_nextId currentYear certs =
     ''CERT-'' @ toString currentYear @ ''-''
       @ padStart 3 CHR ''0'' (toString (highest_seq currentYear certs + 1))"

section \<open>A worked scenario\<close>

text \<open>
  A 1000 by 600 template shown in an 800 by 480 container, with a name placeholder
  at display position (100, 50) in size 24 and an id placeholder at (400, 300) in size 16.
\<close>

definition admin1 :: string where
  "admin1 = ''64f1a2b3c4d5e6f708192c01''"

definition template1 :: string where
  "template1 = ''64f1a2b3c4d5e6f708192a01''"

definition cert1 :: string where
  "cert1 = ''64f1a2b3c4d5e6f708192b01''"

definition cert2 :: string where
  "cert2 = ''64f1a2b3c4d5e6f708192b02''"

definition scenario_image :: image where
  "scenario_image = \<lparr> img_width = 1000, img_height = 600 \<rparr>"

definition scenario_env :: env where
  "scenario_env =
     \<lparr> loadImage = (\<lambda>p. if p = ''uploads/award.png'' then Some scenario_image else None),
       fillText_throws = (\<lambda>t. False),
       pdfText_throws = (\<lambda>t. False),
       pdfImage_throws = (\<lambda>p. False),
       write_throws = (\<lambda>p. False),
       encoded_size = (\<lambda>c. 2048),
       is_objectId = (\<lambda>s. length s = 24 \<and> list_all is_hex s) \<rparr>"

text \<open>The same environment, except that the template file no longer decodes.\<close>

definition broken_env :: env where
  "broken_env = scenario_env\<lparr> loadImage := (\<lambda>p. None) \<rparr>"

definition scenario_name :: placeholder where
  "scenario_name =
     \<lparr> pl_type = PName, pl_x = 100, pl_y = 50, pl_fontSize = Some 24,
       pl_fontFamily = Some ''Arial'', pl_color = Some ''#000000'',
       pl_fontWeight = Some ''normal'', pl_textAlign = Some ''left'', pl_rotation = 0 \<rparr>"

definition scenario_id :: placeholder where
  "scenario_id =
     \<lparr> pl_type = PId, pl_x = 400, pl_y = 300, pl_fontSize = Some 16,
       pl_fontFamily = Some ''Georgia'', pl_color = Some ''#333333'',
       pl_fontWeight = Some ''bold'', pl_textAlign = Some ''center'', pl_rotation = 0 \<rparr>"

definition scenario_template :: template where
  "scenario_template =
     \<lparr> tpl_oid = template1, tpl_name = ''Award'', tpl_filename = ''award.png'',
       tpl_dimensions = \<lparr> dim_width = 1000, dim_height = 600 \<rparr>,
       tpl_placeholders = [scenario_name, scenario_id],
       tpl_isActive = True, tpl_createdBy = admin1, tpl_usageCount = 0 \<rparr>"

definition scenario_values :: "ptype \<Rightarrow> string option" where
  "scenario_values =
     (\<lambda>t. case t of PName \<Rightarrow> Some ''Ada Lovelace'' | PId \<Rightarrow> Some ''CERT-2024-001'')"

text \<open>Values in which the id is left empty.\<close>

definition name_only_values :: "ptype \<Rightarrow> string option" where
  "name_only_values = (\<lambda>t. case t of PName \<Rightarrow> Some ''Ada Lovelace'' | PId \<Rightarrow> Some [])"

definition scenario_container :: containerDimensions where
  "scenario_container = \<lparr> width = Some 800, height = Some 480 \<rparr>"

text \<open>A container with the template's width but not its aspect ratio.\<close>

definition wide_container :: containerDimensions where
  "wide_container = \<lparr> width = Some 800, height = Some 600 \<rparr>"

definition scenario_body :: create_body where
  "scenario_body =
     \<lparr> rq_participantName = ''Ada Lovelace'', rq_templateId = template1,
       rq_placeholderValues = Some scenario_values,
       rq_containerDimensions = Some scenario_container,
       rq_notes = None, rq_tags = None \<rparr>"

definition scenario_state :: state where
  "scenario_state =
     \<lparr> st_templates = [scenario_template], st_certificates = [],
       st_files = Map.empty, st_calls = [] \<rparr>"

text \<open>A template that has a name placeholder but no id placeholder.\<close>

definition no_id_state :: state where
  "no_id_state =
     scenario_state\<lparr> st_templates := [scenario_template\<lparr> tpl_placeholders := [scenario_name] \<rparr>] \<rparr>"

text \<open>A stored, generated certificate with the given document id and identifier.\<close>

definition cert_with_id :: "string \<Rightarrow> string \<Rightarrow> certificate" where
  "cert_with_id oid cid =
     \<lparr> cert_oid = oid, certificateId = cid, participantName = ''Ada Lovelace'',
       cert_template = template1,
       templateSnapshot =
         \<lparr> ts_name = ''Award'', ts_filename = ''award.png'',
           ts_placeholders = [scenario_name, scenario_id],
           ts_dimensions = \<lparr> dim_width = 1000, dim_height = 600 \<rparr> \<rparr>,
       generatedFiles =
         \<lparr> gf_pdf = Some \<lparr> fm_filename = cid @ ''.pdf'', fm_path = outputDir @ cid @ ''.pdf'',
                            fm_size = 2048,
                            fm_url = ''/api/certificate/'' @ oid @ ''/download/pdf'' \<rparr>,
           gf_png = Some \<lparr> fm_filename = cid @ ''.png'', fm_path = outputDir @ cid @ ''.png'',
                            fm_size = 2048,
                            fm_url = ''/api/certificate/'' @ oid @ ''/download/png'' \<rparr> \<rparr>,
       status = Generated, generationTime = 120, downloadCount = 0,
       createdBy = admin1, isActive = True, cert_notes = [], cert_tags = [] \<rparr>"

text \<open>One generated certificate of the admin with both of its files on disk.\<close>

definition bulk_state :: state where
  "bulk_state =
     \<lparr> st_templates = [scenario_template],
       st_certificates = [cert_with_id cert1 ''CERT-2024-001''],
       st_files = [''generated/CERT-2024-001.pdf'' \<mapsto> PdfFile scenario_image [],
                   ''generated/CERT-2024-001.png'' \<mapsto> PngFile scenario_image []],
       st_calls = [] \<rparr>"

section \<open>The scale factors of the two renderers\<close>

lemma display_agree: "pdf_display img cd = png_display img cd"
  by (simp add: pdf_display_def png_display_def)

lemma scale_agree: "pdf_scale img cd = png_scale img cd"
  by (simp add: pdf_scale_def png_scale_def display_agree)

lemma scaled_agree: "pdf_scaled sc p = png_scaled sc p"
  by (simp add: pdf_scaled_def png_scaled_def)

lemma png_text_coords:
  "ct_x (png_text (sx, sy) p v) = js_mul (Fin (pl_x p)) sx"
  "ct_y (png_text (sx, sy) p v) = js_mul (Fin (pl_y p)) sy"
  "ct_fontSize (png_text (sx, sy) p v) =
     js_mul (or_number (map_option Fin (pl_fontSize p)) (Fin 24)) sx"
  by (simp_all add: png_text_def png_scaled_def)

lemma pdf_text_coords:
  "pt_x (pdf_text_of (sx, sy) p v) = js_mul (Fin (pl_x p)) sx"
  "pt_y (pdf_text_of (sx, sy) p v) = js_mul (Fin (pl_y p)) sy"
  "pt_fontSize (pdf_text_of (sx, sy) p v) =
     js_mul (or_number (map_option Fin (pl_fontSize p)) (Fin 24)) sx"
  by (simp_all add: pdf_text_of_def pdf_scaled_def)

lemma png_scale_eq:
  "png_scale img cd =
     (js_div (Fin (of_nat (img_width img))) (fst (png_display img cd)),
      js_div (Fin (of_nat (img_height img))) (snd (png_display img cd)))"
  by (simp add: png_scale_def split: prod.splits)

subsection \<open>The worked scenario\<close>

lemma scenario_scale:
  "png_scale scenario_image (Some scenario_container) = (Fin (5/4), Fin (5/4))"
  by (simp add: png_scale_def png_display_def scenario_image_def scenario_container_def
      or_number_def)

lemma wide_scale: "png_scale scenario_image (Some wide_container) = (Fin (5/4), Fin 1)"
  by (simp add: png_scale_def png_display_def scenario_image_def wide_container_def
      or_number_def)

lemma font_canvas:
  "getSystemFont ''Arial'' Canvas = ''Arial''"
  "getSystemFont ''Georgia'' Canvas = ''Georgia''"
  by (simp_all add: getSystemFont_def canvas_fontMap_def)

lemma font_pdf:
  "getSystemFont ''Arial'' Pdf = ''Helvetica''"
  "getSystemFont ''Georgia'' Pdf = ''Times-Roman''"
  by (simp_all add: getSystemFont_def pdf_fontMap_def)

lemma scenario_png_texts:
  "png_forEach scenario_env (png_scale scenario_image (Some scenario_container))
      (Some scenario_values) (tpl_placeholders scenario_template) =
    Inr [\<lparr> ct_fontWeight = ''normal'', ct_fontSize = Fin 30, ct_font = ''Arial'',
           ct_fillStyle = ''#000000'', ct_textAlign = ''left'', ct_textBaseline = ''top'',
           ct_value = ''Ada Lovelace'', ct_x = Fin 125, ct_y = Fin (125/2) \<rparr>,
         \<lparr> ct_fontWeight = ''bold'', ct_fontSize = Fin 20, ct_font = ''Georgia'',
           ct_fillStyle = ''#333333'', ct_textAlign = ''center'', ct_textBaseline = ''top'',
           ct_value = ''CERT-2024-001'', ct_x = Fin 500, ct_y = Fin 375 \<rparr>]"
  unfolding scenario_scale
  by (simp add: scenario_env_def scenario_values_def scenario_name_def scenario_id_def
      resolve_def or_string_def png_text_def png_scaled_def or_number_def font_canvas
      scenario_template_def)

lemma scenario_pdf_texts:
  "pdf_forEach scenario_env (pdf_scale scenario_image (Some scenario_container))
      (Some scenario_values) (tpl_placeholders scenario_template) =
    Inr [\<lparr> pt_font = ''Helvetica'', pt_fontSize = Fin 30, pt_fillColor = ''#000000'',
           pt_value = ''Ada Lovelace'', pt_x = Fin 125, pt_y = Fin (125/2),
           pt_align = ''left'' \<rparr>,
         \<lparr> pt_font = ''Times-Roman'', pt_fontSize = Fin 20, pt_fillColor = ''#333333'',
           pt_value = ''CERT-2024-001'', pt_x = Fin 500, pt_y = Fin 375,
           pt_align = ''center'' \<rparr>]"
  unfolding scale_agree scenario_scale
  by (simp add: scenario_env_def scenario_values_def scenario_name_def scenario_id_def
      resolve_def or_string_def pdf_text_of_def pdf_scaled_def or_number_def font_pdf
      scenario_template_def)

lemma scenario_loadImage: "loadImage scenario_env ''uploads/award.png'' = Some scenario_image"
  by (simp add: scenario_env_def)

lemma scenario_write: "write_throws scenario_env p = False"
  by (simp add: scenario_env_def)

lemma scenario_pdfImage: "pdfImage_throws scenario_env p = False"
  by (simp add: scenario_env_def)

lemma scenario_generatePNG:
  "generatePNG scenario_env fs ''CERT-2024-001'' scenario_template (Some scenario_values)
      ''uploads/award.png'' (Some scenario_container) =
   (Inr ''generated/CERT-2024-001.png'',
    fs(''generated/CERT-2024-001.png'' \<mapsto> PngFile scenario_image
     [\<lparr> ct_fontWeight = ''normal'', ct_fontSize = Fin 30, ct_font = ''Arial'',
        ct_fillStyle = ''#000000'', ct_textAlign = ''left'', ct_textBaseline = ''top'',
        ct_value = ''Ada Lovelace'', ct_x = Fin 125, ct_y = Fin (125/2) \<rparr>,
      \<lparr> ct_fontWeight = ''bold'', ct_fontSize = Fin 20, ct_font = ''Georgia'',
        ct_fillStyle = ''#333333'', ct_textAlign = ''center'', ct_textBaseline = ''top'',
        ct_value = ''CERT-2024-001'', ct_x = Fin 500, ct_y = Fin 375 \<rparr>]))"
  by (simp add: generatePNG_def scenario_loadImage scenario_png_texts scenario_write
      outputDir_def Let_def)

lemma scenario_generatePDF:
  "generatePDF scenario_env fs ''CERT-2024-001'' scenario_template (Some scenario_values)
      ''uploads/award.png'' (Some scenario_container) =
   (Inr ''generated/CERT-2024-001.pdf'',
    fs(''generated/CERT-2024-001.pdf'' \<mapsto> PdfFile scenario_image
     [\<lparr> pt_font = ''Helvetica'', pt_fontSize = Fin 30, pt_fillColor = ''#000000'',
        pt_value = ''Ada Lovelace'', pt_x = Fin 125, pt_y = Fin (125/2),
        pt_align = ''left'' \<rparr>,
      \<lparr> pt_font = ''Times-Roman'', pt_fontSize = Fin 20, pt_fillColor = ''#333333'',
        pt_value = ''CERT-2024-001'', pt_x = Fin 500, pt_y = Fin 375,
        pt_align = ''center'' \<rparr>]))"
  by (simp add: generatePDF_def scenario_loadImage scenario_pdf_texts scenario_write
      scenario_pdfImage outputDir_def Let_def)

subsection \<open>What the two renderers write\<close>

lemma png_forEach_texts:
  "png_forEach e sc vals ps = Inr ts \<Longrightarrow>
     ts = map (\<lambda>p. png_text sc p (value_of vals p)) (drawn vals ps)"
proof (induction ps arbitrary: ts)
  case Nil
  then show ?case by (simp add: drawn_def)
next
  case (Cons p ps)
  show ?case
  proof (cases vals)
    case None
    with Cons.prems show ?thesis by simp
  next
    case (Some m)
    show ?thesis
    proof (cases "resolve m (pl_type p) = []")
      case True
      with Cons Some show ?thesis
        by (simp add: drawn_def value_of_def)
    next
      case False
      with Cons.prems Some obtain ts' where
        rest: "png_forEach e sc vals ps = Inr ts'"
        and ts: "ts = png_text sc p (resolve m (pl_type p)) # ts'"
        by (auto simp: Let_def split: if_splits sum.splits)
      from Cons.IH [OF rest] ts False Some show ?thesis
        by (simp add: drawn_def value_of_def)
    qed
  qed
qed

lemma pdf_forEach_texts:
  "pdf_forEach e sc vals ps = Inr ts \<Longrightarrow>
     ts = map (\<lambda>p. pdf_text_of sc p (value_of vals p)) (drawn vals ps)"
proof (induction ps arbitrary: ts)
  case Nil
  then show ?case by (simp add: drawn_def)
next
  case (Cons p ps)
  show ?case
  proof (cases vals)
    case None
    with Cons.prems show ?thesis by simp
  next
    case (Some m)
    show ?thesis
    proof (cases "resolve m (pl_type p) = []")
      case True
      with Cons Some show ?thesis
        by (simp add: drawn_def value_of_def)
    next
      case False
      with Cons.prems Some obtain ts' where
        rest: "pdf_forEach e sc vals ps = Inr ts'"
        and ts: "ts = pdf_text_of sc p (resolve m (pl_type p)) # ts'"
        by (auto simp: Let_def split: if_splits sum.splits)
      from Cons.IH [OF rest] ts False Some show ?thesis
        by (simp add: drawn_def value_of_def)
    qed
  qed
qed

lemma generatePNG_writes:
  assumes "generatePNG e fs cid tpl vals path cd = (Inr pngPath, fs1)"
  shows "\<exists>img. loadImage e path = Some img \<and>
           fs1 pngPath =
             Some (PngFile img
                     (map (\<lambda>p. png_text (png_scale img cd) p (value_of vals p))
                        (drawn vals (tpl_placeholders tpl))))"
proof (cases "loadImage e path")
  case None
  with assms show ?thesis by (simp add: generatePNG_def)
next
  case (Some img)
  show ?thesis
  proof (cases "png_forEach e (png_scale img cd) vals (tpl_placeholders tpl)")
    case (Inl err)
    with assms Some show ?thesis by (simp add: generatePNG_def)
  next
    case (Inr ts)
    from png_forEach_texts [OF Inr] assms Some Inr show ?thesis
      by (auto simp: generatePNG_def Let_def split: if_splits)
  qed
qed

lemma generatePDF_writes:
  assumes "generatePDF e fs cid tpl vals path cd = (Inr pdfPath, fs1)"
  shows "\<exists>img. loadImage e path = Some img \<and>
           fs1 pdfPath =
             Some (PdfFile img
                     (map (\<lambda>p. pdf_text_of (pdf_scale img cd) p (value_of vals p))
                        (drawn vals (tpl_placeholders tpl))))"
proof (cases "loadImage e path")
  case None
  with assms show ?thesis by (simp add: generatePDF_def)
next
  case (Some img)
  show ?thesis
  proof (cases "pdf_forEach e (pdf_scale img cd) vals (tpl_placeholders tpl)")
    case (Inl err)
    with assms Some show ?thesis by (simp add: generatePDF_def Let_def split: if_splits)
  next
    case (Inr ts)
    from pdf_forEach_texts [OF Inr] assms Some Inr show ?thesis
      by (auto simp: generatePDF_def Let_def split: if_splits)
  qed
qed

lemma placement_agree:
  "pdf_placement (pdf_text_of (pdf_scale img cd) p v) =
     canvas_placement (png_text (png_scale img cd) p v)"
  by (simp add: pdf_placement_def canvas_placement_def scale_agree scaled_agree
      png_text_def pdf_text_of_def split: prod.splits)

lemma canvas_placement_scaled:
  "canvas_placement (png_text sc p v) =
     (v, fst (png_scaled sc p), fst (snd (png_scaled sc p)), snd (snd (png_scaled sc p)))"
  by (simp add: canvas_placement_def png_text_def split: prod.splits)

text \<open>
  C1. Whenever the PNG renderer and the PDF renderer are run on the same certificate,
  template, placeholder values, template file and container dimensions and both return,
  the two files they write hold the same decoded image and, placeholder by placeholder
  (for every placeholder that has a value, in the template's order), texts with the same
  string, the same x, the same y and the same font size: the scaled triple that the PNG
  renderer's scale factors give, which are also the PDF renderer's scale factors.
\<close>

theorem renderers_same_scaling:
  assumes "generatePNG e fs cid tpl vals path cd = (Inr pngPath, fs1)"
    and "generatePDF e fs' cid tpl vals path cd = (Inr pdfPath, fs2)"
  shows "\<exists>img ts us.
           loadImage e path = Some img \<and>
           fs1 pngPath = Some (PngFile img ts) \<and>
           fs2 pdfPath = Some (PdfFile img us) \<and>
           png_scale img cd = pdf_scale img cd \<and>
           map canvas_placement ts = map pdf_placement us \<and>
           map canvas_placement ts =
             map (\<lambda>p. (value_of vals p, fst (png_scaled (png_scale img cd) p),
                        fst (snd (png_scaled (png_scale img cd) p)),
                        snd (snd (png_scaled (png_scale img cd) p))))
               (drawn vals (tpl_placeholders tpl)) \<and>
           map pdf_placement us =
             map (\<lambda>p. (value_of vals p, fst (pdf_scaled (pdf_scale img cd) p),
                        fst (snd (pdf_scaled (pdf_scale img cd) p)),
                        snd (snd (pdf_scaled (pdf_scale img cd) p))))
               (drawn vals (tpl_placeholders tpl))"
proof -
  from generatePNG_writes [OF assms(1)] obtain img where
    img: "loadImage e path = Some img"
    and png: "fs1 pngPath =
             Some (PngFile img
                     (map (\<lambda>p. png_text (png_scale img cd) p (value_of vals p))
                        (drawn vals (tpl_placeholders tpl))))"
    by (elim exE conjE)
  from generatePDF_writes [OF assms(2)] img have
    pdf: "fs2 pdfPath =
             Some (PdfFile img
                     (map (\<lambda>p. pdf_text_of (pdf_scale img cd) p (value_of vals p))
                        (drawn vals (tpl_placeholders tpl))))"
    by auto
  let ?ts = "map (\<lambda>p. png_text (png_scale img cd) p (value_of vals p))
               (drawn vals (tpl_placeholders tpl))"
  let ?us = "map (\<lambda>p. pdf_text_of (pdf_scale img cd) p (value_of vals p))
               (drawn vals (tpl_placeholders tpl))"
  have same: "map canvas_placement ?ts = map pdf_placement ?us"
    by (simp add: placement_agree)
  have pngs: "map canvas_placement ?ts =
             map (\<lambda>p. (value_of vals p, fst (png_scaled (png_scale img cd) p),
                        fst (snd (png_scaled (png_scale img cd) p)),
                        snd (snd (png_scaled (png_scale img cd) p))))
               (drawn vals (tpl_placeholders tpl))"
    by (simp add: canvas_placement_scaled)
  have pdfs: "map pdf_placement ?us =
             map (\<lambda>p. (value_of vals p, fst (pdf_scaled (pdf_scale img cd) p),
                        fst (snd (pdf_scaled (pdf_scale img cd) p)),
                        snd (snd (pdf_scaled (pdf_scale img cd) p))))
               (drawn vals (tpl_placeholders tpl))"
    unfolding scaled_agree scale_agree using same pngs by (simp add: scale_agree)
  have sc: "png_scale img cd = pdf_scale img cd"
    by (simp add: scale_agree)
  show ?thesis
    by (intro exI [of _ img] exI [of _ ?ts] exI [of _ ?us] conjI img png pdf sc same pngs pdfs)
qed

theorem renderers_same_scaling_witness:
  "fst (generatePNG scenario_env Map.empty ''CERT-2024-001'' scenario_template
          (Some scenario_values) ''uploads/award.png'' (Some scenario_container))
     = Inr ''generated/CERT-2024-001.png'' \<and>
   fst (generatePDF scenario_env Map.empty ''CERT-2024-001'' scenario_template
          (Some scenario_values) ''uploads/award.png'' (Some scenario_container))
     = Inr ''generated/CERT-2024-001.pdf'' \<and>
   (\<exists>img ts us.
      snd (generatePNG scenario_env Map.empty ''CERT-2024-001'' scenario_template
             (Some scenario_values) ''uploads/award.png'' (Some scenario_container))
        ''generated/CERT-2024-001.png'' = Some (PngFile img ts) \<and>
      snd (generatePDF scenario_env Map.empty ''CERT-2024-001'' scenario_template
             (Some scenario_values) ''uploads/award.png'' (Some scenario_container))
        ''generated/CERT-2024-001.pdf'' = Some (PdfFile img us) \<and>
      map canvas_placement ts = map pdf_placement us \<and>
      map pdf_placement us =
        [(''Ada Lovelace'', Fin 125, Fin (125/2), Fin 30),
         (''CERT-2024-001'', Fin 500, Fin 375, Fin 20)])"
proof -
  let ?png = "generatePNG scenario_env Map.empty ''CERT-2024-001'' scenario_template
          (Some scenario_values) ''uploads/award.png'' (Some scenario_container)"
  let ?pdf = "generatePDF scenario_env Map.empty ''CERT-2024-001'' scenario_template
          (Some scenario_values) ''uploads/award.png'' (Some scenario_container)"
  have p1: "fst ?png = Inr ''generated/CERT-2024-001.png''"
    and p2: "fst ?pdf = Inr ''generated/CERT-2024-001.pdf''"
    by (simp_all add: scenario_generatePNG scenario_generatePDF)
  have h1: "?png = (Inr ''generated/CERT-2024-001.png'', snd ?png)"
    and h2: "?pdf = (Inr ''generated/CERT-2024-001.pdf'', snd ?pdf)"
    using p1 p2 by (simp_all add: prod_eq_iff)
  from renderers_same_scaling [OF h1 h2] obtain img ts us where
    "loadImage scenario_env ''uploads/award.png'' = Some img"
    and f1: "snd ?png ''generated/CERT-2024-001.png'' = Some (PngFile img ts)"
    and f2: "snd ?pdf ''generated/CERT-2024-001.pdf'' = Some (PdfFile img us)"
    and "png_scale img (Some scenario_container) = pdf_scale img (Some scenario_container)"
    and same: "map canvas_placement ts = map pdf_placement us"
    and "map canvas_placement ts =
             map (\<lambda>p. (value_of (Some scenario_values) p,
                        fst (png_scaled (png_scale img (Some scenario_container)) p),
                        fst (snd (png_scaled (png_scale img (Some scenario_container)) p)),
                        snd (snd (png_scaled (png_scale img (Some scenario_container)) p))))
               (drawn (Some scenario_values) (tpl_placeholders scenario_template))"
    and "map pdf_placement us =
             map (\<lambda>p. (value_of (Some scenario_values) p,
                        fst (pdf_scaled (pdf_scale img (Some scenario_container)) p),
                        fst (snd (pdf_scaled (pdf_scale img (Some scenario_container)) p)),
                        snd (snd (pdf_scaled (pdf_scale img (Some scenario_container)) p))))
               (drawn (Some scenario_values) (tpl_placeholders scenario_template))"
    by (elim exE conjE)
  from f2 have "us =
     [\<lparr> pt_font = ''Helvetica'', pt_fontSize = Fin 30, pt_fillColor = ''#000000'',
        pt_value = ''Ada Lovelace'', pt_x = Fin 125, pt_y = Fin (125/2),
        pt_align = ''left'' \<rparr>,
      \<lparr> pt_font = ''Times-Roman'', pt_fontSize = Fin 20, pt_fillColor = ''#333333'',
        pt_value = ''CERT-2024-001'', pt_x = Fin 500, pt_y = Fin 375,
        pt_align = ''center'' \<rparr>]"
    by (simp add: scenario_generatePDF)
  then have vals: "map pdf_placement us =
        [(''Ada Lovelace'', Fin 125, Fin (125/2), Fin 30),
         (''CERT-2024-001'', Fin 500, Fin 375, Fin 20)]"
    by (simp add: pdf_placement_def)
  show ?thesis
    by (intro conjI p1 p2 exI [of _ img] exI [of _ ts] exI [of _ us] f1 f2 same vals)
qed

text \<open>
  C2, as the code has it. The horizontal factor is the image width over the display
  width and the vertical factor the image height over the display height. Both renderers
  draw a placeholder's text at x times the horizontal factor and y times the vertical
  factor, in the font size (24 when it is missing or zero) times the horizontal factor.
  In the scenario (a 1000 by 600 image in an 800 by 480 container) the name placeholder
  at (100, 50) in size 24 is drawn at (125, 62.5) in size 30 in the PNG and in the PDF.
\<close>

theorem scaled_placement:
  "png_scale img cd =
     (js_div (Fin (of_nat (img_width img))) (fst (png_display img cd)),
      js_div (Fin (of_nat (img_height img))) (snd (png_display img cd))) \<and>
   pdf_scale img cd =
     (js_div (Fin (of_nat (img_width img))) (fst (pdf_display img cd)),
      js_div (Fin (of_nat (img_height img))) (snd (pdf_display img cd))) \<and>
   ct_x (png_text (scaleX, scaleY) p v) = js_mul (Fin (pl_x p)) scaleX \<and>
   ct_y (png_text (scaleX, scaleY) p v) = js_mul (Fin (pl_y p)) scaleY \<and>
   ct_fontSize (png_text (scaleX, scaleY) p v) =
     js_mul (or_number (map_option Fin (pl_fontSize p)) (Fin 24)) scaleX \<and>
   pt_x (pdf_text_of (scaleX, scaleY) p v) = js_mul (Fin (pl_x p)) scaleX \<and>
   pt_y (pdf_text_of (scaleX, scaleY) p v) = js_mul (Fin (pl_y p)) scaleY \<and>
   pt_fontSize (pdf_text_of (scaleX, scaleY) p v) =
     js_mul (or_number (map_option Fin (pl_fontSize p)) (Fin 24)) scaleX \<and>
   generatePNG scenario_env fs ''CERT-2024-001'' scenario_template (Some scenario_values)
      ''uploads/award.png'' (Some scenario_container) =
   (Inr ''generated/CERT-2024-001.png'',
    fs(''generated/CERT-2024-001.png'' \<mapsto> PngFile scenario_image
     [\<lparr> ct_fontWeight = ''normal'', ct_fontSize = Fin 30, ct_font = ''Arial'',
        ct_fillStyle = ''#000000'', ct_textAlign = ''left'', ct_textBaseline = ''top'',
        ct_value = ''Ada Lovelace'', ct_x = Fin 125, ct_y = Fin (125/2) \<rparr>,
      \<lparr> ct_fontWeight = ''bold'', ct_fontSize = Fin 20, ct_font = ''Georgia'',
        ct_fillStyle = ''#333333'', ct_textAlign = ''center'', ct_textBaseline = ''top'',
        ct_value = ''CERT-2024-001'', ct_x = Fin 500, ct_y = Fin 375 \<rparr>])) \<and>
   generatePDF scenario_env fs ''CERT-2024-001'' scenario_template (Some scenario_values)
      ''uploads/award.png'' (Some scenario_container) =
   (Inr ''generated/CERT-2024-001.pdf'',
    fs(''generated/CERT-2024-001.pdf'' \<mapsto> PdfFile scenario_image
     [\<lparr> pt_font = ''Helvetica'', pt_fontSize = Fin 30, pt_fillColor = ''#000000'',
        pt_value = ''Ada Lovelace'', pt_x = Fin 125, pt_y = Fin (125/2),
        pt_align = ''left'' \<rparr>,
      \<lparr> pt_font = ''Times-Roman'', pt_fontSize = Fin 20, pt_fillColor = ''#333333'',
        pt_value = ''CERT-2024-001'', pt_x = Fin 500, pt_y = Fin 375,
        pt_align = ''center'' \<rparr>]))"
  unfolding scenario_generatePNG scenario_generatePDF display_agree scale_agree
  using png_scale_eq [of img cd] by (simp add: png_text_coords pdf_text_coords)

text \<open>
  The vertical coordinate is not multiplied by the horizontal factor: in an 800 by 600
  container the 1000 by 600 image has the factors 5/4 and 1, and the name placeholder's
  y = 50 stays 50 in both renderers, where the horizontal factor would give 62.5.
\<close>

theorem y_not_scaled_by_scaleX:
  "ct_y (png_text (png_scale scenario_image (Some wide_container)) scenario_name ''Ada Lovelace'')
     \<noteq> js_mul (Fin (pl_y scenario_name)) (fst (png_scale scenario_image (Some wide_container))) \<and>
   pt_y (pdf_text_of (pdf_scale scenario_image (Some wide_container)) scenario_name
           ''Ada Lovelace'')
     \<noteq> js_mul (Fin (pl_y scenario_name)) (fst (pdf_scale scenario_image (Some wide_container)))"
  by (simp add: scale_agree wide_scale png_text_coords pdf_text_coords scenario_name_def)



section \<open>Placeholders without a value\<close>

lemma png_forEach_skip:
  "resolve m (pl_type p) = [] \<Longrightarrow>
     png_forEach e sc (Some m) (qs @ p # ps) = png_forEach e sc (Some m) (qs @ ps)"
  by (induction qs) (simp_all add: Let_def)

lemma pdf_forEach_skip:
  "resolve m (pl_type p) = [] \<Longrightarrow>
     pdf_forEach e sc (Some m) (qs @ p # ps) = pdf_forEach e sc (Some m) (qs @ ps)"
  by (induction qs) (simp_all add: Let_def)

text \<open>
  C8. A placeholder whose resolved value is empty draws nothing and throws nothing in
  either renderer, and the other placeholders are handled as if it were not in the list:
  wherever it stands among the template's placeholders, each renderer's drawing loop and
  each renderer as a whole give the result they give without it.
\<close>

theorem empty_value_skipped:
  assumes "resolve m (pl_type p) = []"
  shows "png_forEach e sc (Some m) [p] = Inr [] \<and>
         pdf_forEach e sc (Some m) [p] = Inr [] \<and>
         png_forEach e sc (Some m) (qs @ p # ps) = png_forEach e sc (Some m) (qs @ ps) \<and>
         pdf_forEach e sc (Some m) (qs @ p # ps) = pdf_forEach e sc (Some m) (qs @ ps) \<and>
         generatePNG e fs cid (tpl\<lparr> tpl_placeholders := qs @ p # ps \<rparr>) (Some m) path cd =
           generatePNG e fs cid (tpl\<lparr> tpl_placeholders := qs @ ps \<rparr>) (Some m) path cd \<and>
         generatePDF e fs cid (tpl\<lparr> tpl_placeholders := qs @ p # ps \<rparr>) (Some m) path cd =
           generatePDF e fs cid (tpl\<lparr> tpl_placeholders := qs @ ps \<rparr>) (Some m) path cd"
  using assms png_forEach_skip [OF assms] pdf_forEach_skip [OF assms]
  by (simp add: generatePNG_def generatePDF_def cong: option.case_cong if_cong)

lemma name_only_id: "resolve name_only_values (pl_type scenario_id) = []"
  by (simp add: resolve_def name_only_values_def scenario_id_def or_string_def)

theorem empty_value_skipped_witness:
  "resolve name_only_values (pl_type scenario_id) = [] \<and>
   png_forEach scenario_env (Fin (5/4), Fin (5/4)) (Some name_only_values)
       [scenario_name, scenario_id] =
     png_forEach scenario_env (Fin (5/4), Fin (5/4)) (Some name_only_values) [scenario_name] \<and>
   pdf_forEach scenario_env (Fin (5/4), Fin (5/4)) (Some name_only_values)
       [scenario_name, scenario_id] =
     pdf_forEach scenario_env (Fin (5/4), Fin (5/4)) (Some name_only_values) [scenario_name] \<and>
   png_forEach scenario_env (Fin (5/4), Fin (5/4)) (Some name_only_values) [scenario_id] = Inr [] \<and>
   pdf_forEach scenario_env (Fin (5/4), Fin (5/4)) (Some name_only_values) [scenario_id] = Inr []"
  using empty_value_skipped [OF name_only_id, where qs = "[scenario_name]" and ps = "[]"
      and e = scenario_env and sc = "(Fin (5/4), Fin (5/4))"] name_only_id
  by simp

section \<open>The generator\<close>

lemma generatePNG_Inr:
  assumes "generatePNG e fs cid tpl vals path cd = (Inr p, fs1)"
  shows "p = outputDir @ cid @ ''.png'' \<and> fs1 p \<noteq> None"
  using assms
  by (auto simp: generatePNG_def Let_def split: option.splits sum.splits if_splits)

lemma generatePDF_Inr:
  assumes "generatePDF e fs cid tpl vals path cd = (Inr p, fs1)"
  shows "p = outputDir @ cid @ ''.pdf'' \<and> fs1 p \<noteq> None \<and>
         (\<forall>q. fs q \<noteq> None \<longrightarrow> fs1 q \<noteq> None)"
  using assms
  by (auto simp: generatePDF_def Let_def split: option.splits sum.splits if_splits)

text \<open>
  The generator returns file metadata exactly when both renderers ran to completion:
  the two files they wrote are there when their sizes are read.
\<close>

lemma generateCertificate_ok:
  "(\<exists>x. fst (generateCertificate e fs cid tpl vals cd) = Inr x) =
     renderers_completed e fs cid tpl vals cd"
proof (cases "generatePNG e fs cid tpl vals (''uploads/'' @ tpl_filename tpl) cd")
  case (Pair r1 fs1)
  show ?thesis
  proof (cases r1)
    case (Inl err)
    with Pair show ?thesis
      by (simp add: generateCertificate_def renderers_completed_def)
  next
    case (Inr pngPath)
    note png = Pair [unfolded Inr]
    show ?thesis
    proof (cases "generatePDF e fs1 cid tpl vals (''uploads/'' @ tpl_filename tpl) cd")
      case (Pair r2 fs2)
      show ?thesis
      proof (cases r2)
        case (Inl err)
        with Pair png show ?thesis
          by (simp add: generateCertificate_def renderers_completed_def)
      next
        case (Inr pdfPath)
        note pdf = Pair [unfolded Inr]
        from generatePNG_Inr [OF png] have a: "fs1 pngPath \<noteq> None" by blast
        from generatePDF_Inr [OF pdf] a have b: "fs2 pdfPath \<noteq> None" "fs2 pngPath \<noteq> None"
          by blast+
        from b obtain c1 c2 where "fs2 pdfPath = Some c1" "fs2 pngPath = Some c2" by auto
        with png pdf show ?thesis
          by (simp add: generateCertificate_def renderers_completed_def stat_def)
      qed
    qed
  qed
qed

lemma generateCertificate_cases:
  obtains (failed) err fs' calls where
      "generateCertificate e fs cid tpl vals cd = (Inl err, fs', calls)"
      "\<not> renderers_completed e fs cid tpl vals cd"
  | (ok) pdf png fs' calls where
      "generateCertificate e fs cid tpl vals cd = (Inr (pdf, png), fs', calls)"
      "renderers_completed e fs cid tpl vals cd"
proof (cases "generateCertificate e fs cid tpl vals cd")
  case (fields r fs' calls)
  show ?thesis
  proof (cases r)
    case (Inl err)
    with fields generateCertificate_ok [of e fs cid tpl vals cd] show ?thesis
      by (intro failed [of err fs' calls]) auto
  next
    case (Inr x)
    with fields generateCertificate_ok [of e fs cid tpl vals cd] show ?thesis
      by (cases x) (auto intro: ok)
  qed
qed

section \<open>Creating a certificate\<close>

lemma record_saved_simps:
  "st_files (record_saved cid cert tpl certs1 s) = st_files s"
  "st_certificates (record_saved cid cert tpl certs1 s) = certs1"
  "st_calls (record_saved cid cert tpl certs1 s) =
     st_calls s @ [CallGenerateNextId cid, CallSave cert, CallIncrementUsage (tpl_oid tpl)]"
  by (simp_all add: record_saved_def)

lemma create_files_props:
  assumes "create_files e el body tpl cert s = (r, s')"
  shows "res_status r = 201 \<and> res_success r \<and>
         res_message r = ''Certificate created successfully'' \<and>
         (\<exists>c. res_certificate r = Some c \<and> cert_oid c = cert_oid cert \<and>
              st_certificates s' = save_existing c (st_certificates s) \<and>
              status c =
                (if renderers_completed e (st_files s) (certificateId cert) tpl
                      (rq_placeholderValues body) (rq_containerDimensions body)
                 then Generated else Failed) \<and>
              (status c = Failed \<longrightarrow> generatedFiles c = no_files) \<and>
              (\<exists>calls. st_calls s' = st_calls s @ calls @ [CallSave c]))"
proof (cases rule: generateCertificate_cases
    [of e "st_files s" "certificateId cert" tpl "rq_placeholderValues body"
        "rq_containerDimensions body"])
  case (failed err fs' calls)
  with assms show ?thesis
    by (auto simp: create_files_def Let_def)
next
  case (ok pdf png fs' calls)
  with assms show ?thesis
    by (auto simp: create_files_def Let_def)
qed

lemma save_unique:
  assumes "save_new cert certs = Inr certs1" and "cert_oid c = cert_oid cert"
  shows "\<forall>d\<in>set (save_existing c certs1). cert_oid d = cert_oid cert \<longrightarrow> d = c"
    and "c \<in> set (save_existing c certs1)"
    and "cert \<in> set certs1"
  using assms
  by (auto simp: save_new_def save_existing_def list_ex_iff split: if_splits)

text \<open>A certificate that is not in status generated is never served.\<close>

lemma download_refused:
  assumes "\<forall>d\<in>set (st_certificates s). cert_oid d = oid \<longrightarrow> status d \<noteq> Generated"
  shows "\<exists>code msg. download e adminId oid format s = (DownloadError code msg, s)"
proof (cases "findCertificate e oid adminId (st_certificates s)")
  case (Inl err)
  then show ?thesis by (simp add: download_def)
next
  case (Inr found)
  show ?thesis
  proof (cases found)
    case None
    with Inr show ?thesis by (simp add: download_def)
  next
    case (Some c)
    with Inr have "find (\<lambda>c. cert_oid c = oid \<and> createdBy c = adminId \<and> isActive c)
                     (st_certificates s) = Some c"
      by (simp add: findCertificate_def split: if_splits)
    then have "c \<in> set (st_certificates s) \<and> cert_oid c = oid"
      by (auto simp: find_Some_iff)
    with assms have "status c \<noteq> Generated" by blast
    with Inr Some show ?thesis by (simp add: download_def)
  qed
qed

text \<open>A 201 response means the template was found, the record was stored and the
  generator was run on it.\<close>

lemma create_201:
  assumes "create e yr el oid adm body s = (r, s')" and "res_status r = 201"
  shows "\<exists>tpl certs1.
           findTemplate e (rq_templateId body) adm (st_templates s) = Inr (Some tpl) \<and>
           save_new (new_certificate oid adm (generateNextId yr (st_certificates s)) body tpl)
             (st_certificates s) = Inr certs1 \<and>
           create_files e el body tpl
             (new_certificate oid adm (generateNextId yr (st_certificates s)) body tpl)
             (record_saved (generateNextId yr (st_certificates s))
                (new_certificate oid adm (generateNextId yr (st_certificates s)) body tpl)
                tpl certs1 s) = (r, s')"
  using assms
  by (auto simp: create_def create_record_def failure_def Let_def
      split: if_splits option.splits sum.splits save_error.splits)

text \<open>
  C5. When the create handler answers 201: the record it first stored has status
  pending; the record it leaves in the database (the only one with the new document id)
  has status generated exactly when the PNG renderer and then the PDF renderer ran to
  completion, and status failed otherwise; and a record left failed carries no file
  metadata and is refused by the download handler, for every admin and every format.
\<close>

theorem status_after_create:
  assumes "create e yr el oid adm body s = (r, s')" and "res_status r = 201"
  shows "\<exists>tpl c0 c calls.
           findTemplate e (rq_templateId body) adm (st_templates s) = Inr (Some tpl) \<and>
           c0 = new_certificate oid adm (generateNextId yr (st_certificates s)) body tpl \<and>
           status c0 = Pending \<and>
           st_calls s' =
             st_calls s @ [CallGenerateNextId (generateNextId yr (st_certificates s)), CallSave c0,
                           CallIncrementUsage (tpl_oid tpl)] @ calls @ [CallSave c] \<and>
           res_certificate r = Some c \<and> cert_oid c = oid \<and> c \<in> set (st_certificates s') \<and>
           (\<forall>d\<in>set (st_certificates s'). cert_oid d = oid \<longrightarrow> d = c) \<and>
           (status c = Generated) =
             renderers_completed e (st_files s) (certificateId c0) tpl
               (rq_placeholderValues body) (rq_containerDimensions body) \<and>
           (status c \<noteq> Generated \<longrightarrow>
              status c = Failed \<and> generatedFiles c = no_files \<and>
              (\<forall>adminId format. \<exists>code msg.
                 download e adminId oid format s' = (DownloadError code msg, s')))"
proof -
  from create_201 [OF assms] obtain tpl certs1 where
    tpl: "findTemplate e (rq_templateId body) adm (st_templates s) = Inr (Some tpl)"
    and sv: "save_new (new_certificate oid adm (generateNextId yr (st_certificates s)) body tpl)
             (st_certificates s) = Inr certs1"
    and cf: "create_files e el body tpl
             (new_certificate oid adm (generateNextId yr (st_certificates s)) body tpl)
             (record_saved (generateNextId yr (st_certificates s))
                (new_certificate oid adm (generateNextId yr (st_certificates s)) body tpl)
                tpl certs1 s) = (r, s')"
    by (elim exE conjE)
  define c0 where "c0 = new_certificate oid adm (generateNextId yr (st_certificates s)) body tpl"
  have oid0: "cert_oid c0 = oid" and p0: "status c0 = Pending"
    by (simp_all add: c0_def new_certificate_def)
  from create_files_props [OF cf, unfolded record_saved_simps, folded c0_def]
  obtain c calls where
    rc: "res_certificate r = Some c" and oc: "cert_oid c = cert_oid c0"
    and certs: "st_certificates s' = save_existing c certs1"
    and st: "status c =
                (if renderers_completed e (st_files s) (certificateId c0) tpl
                      (rq_placeholderValues body) (rq_containerDimensions body)
                 then Generated else Failed)"
    and gf: "status c = Failed \<longrightarrow> generatedFiles c = no_files"
    and cl0: "st_calls s' =
               (st_calls s @ [CallGenerateNextId (generateNextId yr (st_certificates s)),
                  CallSave c0, CallIncrementUsage (tpl_oid tpl)]) @ calls @ [CallSave c]"
    by (elim exE conjE)
  from cl0 have cl: "st_calls s' =
      st_calls s @ [CallGenerateNextId (generateNextId yr (st_certificates s)),
         CallSave c0, CallIncrementUsage (tpl_oid tpl)] @ calls @ [CallSave c]"
    by simp
  from save_unique [OF sv [folded c0_def] oc] certs
  have uniq: "\<forall>d\<in>set (st_certificates s'). cert_oid d = oid \<longrightarrow> d = c"
    and mem: "c \<in> set (st_certificates s')"
    by (simp_all add: oid0)
  have dl: "\<forall>adminId format. \<exists>code msg.
              download e adminId oid format s' = (DownloadError code msg, s')"
    if "status c \<noteq> Generated"
  proof -
    from uniq that
    have "\<forall>d\<in>set (st_certificates s'). cert_oid d = oid \<longrightarrow> status d \<noteq> Generated"
      by blast
    from download_refused [OF this] show ?thesis by blast
  qed
  have iff: "(status c = Generated) =
             renderers_completed e (st_files s) (certificateId c0) tpl
               (rq_placeholderValues body) (rq_containerDimensions body)"
    using st by (simp split: if_splits)
  have fl: "status c \<noteq> Generated \<longrightarrow> status c = Failed \<and> generatedFiles c = no_files \<and>
              (\<forall>adminId format. \<exists>code msg.
                 download e adminId oid format s' = (DownloadError code msg, s'))"
    using st gf dl by (simp split: if_splits)
  have oc': "cert_oid c = oid" using oc oid0 by simp
  have "findTemplate e (rq_templateId body) adm (st_templates s) = Inr (Some tpl) \<and>
           c0 = new_certificate oid adm (generateNextId yr (st_certificates s)) body tpl \<and>
           status c0 = Pending \<and>
           st_calls s' =
             st_calls s @ [CallGenerateNextId (generateNextId yr (st_certificates s)), CallSave c0,
                           CallIncrementUsage (tpl_oid tpl)] @ calls @ [CallSave c] \<and>
           res_certificate r = Some c \<and> cert_oid c = oid \<and> c \<in> set (st_certificates s') \<and>
           (\<forall>d\<in>set (st_certificates s'). cert_oid d = oid \<longrightarrow> d = c) \<and>
           (status c = Generated) =
             renderers_completed e (st_files s) (certificateId c0) tpl
               (rq_placeholderValues body) (rq_containerDimensions body) \<and>
           (status c \<noteq> Generated \<longrightarrow>
              status c = Failed \<and> generatedFiles c = no_files \<and>
              (\<forall>adminId format. \<exists>code msg.
                 download e adminId oid format s' = (DownloadError code msg, s')))"
    by (intro conjI tpl c0_def p0 cl rc oc' mem uniq iff fl)
  then show ?thesis by (intro exI)
qed

lemma broken_never_completes: "\<not> renderers_completed broken_env fs cid tpl vals cd"
  by (simp add: renderers_completed_def generatePNG_def broken_env_def scenario_env_def)

lemma broken_create_201:
  "res_status (fst (create broken_env 2024 120 cert1 admin1 scenario_body scenario_state))
     = 201"
  by code_simp

theorem status_after_create_witness:
  "res_status (fst (create broken_env 2024 120 cert1 admin1 scenario_body scenario_state))
     = 201 \<and>
   (\<exists>c. res_certificate
           (fst (create broken_env 2024 120 cert1 admin1 scenario_body scenario_state))
           = Some c \<and>
        status c \<noteq> Generated \<and> status c = Failed \<and> generatedFiles c = no_files \<and>
        (\<exists>code msg.
           download broken_env admin1 cert1 ''pdf''
                 (snd (create broken_env 2024 120 cert1 admin1 scenario_body scenario_state))
             = (DownloadError code msg,
                snd (create broken_env 2024 120 cert1 admin1 scenario_body scenario_state))))"
proof -
  let ?run = "create broken_env 2024 120 cert1 admin1 scenario_body scenario_state"
  have h1: "?run = (fst ?run, snd ?run)"
    by simp
  from status_after_create [OF h1 broken_create_201] obtain tpl c0 c calls where
    "findTemplate broken_env (rq_templateId scenario_body) admin1 (st_templates scenario_state)
       = Inr (Some tpl)"
    and "c0 = new_certificate cert1 admin1
               (generateNextId 2024 (st_certificates scenario_state)) scenario_body tpl"
    and "status c0 = Pending"
    and "st_calls (snd ?run) =
           st_calls scenario_state @
           [CallGenerateNextId (generateNextId 2024 (st_certificates scenario_state)), CallSave c0,
            CallIncrementUsage (tpl_oid tpl)] @ calls @ [CallSave c]"
    and rc: "res_certificate (fst ?run) = Some c"
    and "cert_oid c = cert1"
    and "c \<in> set (st_certificates (snd ?run))"
    and "\<forall>d\<in>set (st_certificates (snd ?run)). cert_oid d = cert1 \<longrightarrow> d = c"
    and iff: "(status c = Generated) =
             renderers_completed broken_env (st_files scenario_state) (certificateId c0) tpl
               (rq_placeholderValues scenario_body) (rq_containerDimensions scenario_body)"
    and imp: "status c \<noteq> Generated \<longrightarrow>
              status c = Failed \<and> generatedFiles c = no_files \<and>
              (\<forall>adminId format. \<exists>code msg.
                 download broken_env adminId cert1 format (snd ?run)
                   = (DownloadError code msg, snd ?run))"
    by (elim exE conjE)
  from iff broken_never_completes have ng: "status c \<noteq> Generated"
    by simp
  with imp have f: "status c = Failed" and g: "generatedFiles c = no_files"
    and d: "\<exists>code msg. download broken_env admin1 cert1 ''pdf'' (snd ?run)
               = (DownloadError code msg, snd ?run)"
    by blast+
  show ?thesis
    by (intro conjI broken_create_201 exI [of _ c] rc ng f g d)
qed

text \<open>
  C7. When the template the request names is found and its placeholder list is empty,
  or has no name placeholder, or has no id placeholder, the create handler answers 400
  without a certificate and leaves the whole state as it was: no identifier was
  assigned, no record stored, no usage counted and no renderer called.
\<close>

theorem validation_gate:
  assumes "findTemplate e (rq_templateId body) adm (st_templates s) = Inr (Some tpl)"
    and "tpl_placeholders tpl = [] \<or>
         \<not> list_ex (\<lambda>p. pl_type p = PName) (tpl_placeholders tpl) \<or>
         \<not> list_ex (\<lambda>p. pl_type p = PId) (tpl_placeholders tpl)"
  shows "res_status (fst (create e yr el oid adm body s)) = 400 \<and>
         \<not> res_success (fst (create e yr el oid adm body s)) \<and>
         res_certificate (fst (create e yr el oid adm body s)) = None \<and>
         snd (create e yr el oid adm body s) = s"
  using assms by (auto simp: create_def failure_def Let_def)

lemma no_id_find:
  "findTemplate scenario_env (rq_templateId scenario_body) admin1 (st_templates no_id_state)
     = Inr (Some (scenario_template\<lparr> tpl_placeholders := [scenario_name] \<rparr>))"
  by code_simp

lemma no_id_placeholders:
  "\<not> list_ex (\<lambda>p. pl_type p = PId)
        (tpl_placeholders (scenario_template\<lparr> tpl_placeholders := [scenario_name] \<rparr>))"
  by (simp add: scenario_name_def)

theorem validation_gate_witness:
  "findTemplate scenario_env (rq_templateId scenario_body) admin1 (st_templates no_id_state)
     = Inr (Some (scenario_template\<lparr> tpl_placeholders := [scenario_name] \<rparr>)) \<and>
   \<not> list_ex (\<lambda>p. pl_type p = PId)
        (tpl_placeholders (scenario_template\<lparr> tpl_placeholders := [scenario_name] \<rparr>)) \<and>
   res_status (fst (create scenario_env 2024 120 cert1 admin1 scenario_body no_id_state))
     = 400 \<and>
   snd (create scenario_env 2024 120 cert1 admin1 scenario_body no_id_state) = no_id_state"
  using validation_gate [OF no_id_find, where yr = 2024 and el = 120 and oid = cert1]
    no_id_find no_id_placeholders
  by blast

text \<open>
  C10. When the request passes the name check and the template check, the new record is
  stored, and the generator then throws, the create handler still answers 201 with
  success true and the message of a successful creation, and the record it leaves in the
  database (the only one with the new document id) has status failed and no file
  metadata.
\<close>

theorem failed_generation_still_created:
  assumes "validateCertificateCreation (rq_participantName body)"
    and "findTemplate e (rq_templateId body) adm (st_templates s) = Inr (Some tpl)"
    and "list_ex (\<lambda>p. pl_type p = PName) (tpl_placeholders tpl)"
    and "list_ex (\<lambda>p. pl_type p = PId) (tpl_placeholders tpl)"
    and "save_new (new_certificate oid adm (generateNextId yr (st_certificates s)) body tpl)
           (st_certificates s) = Inr certs1"
    and "fst (generateCertificate e (st_files s)
                (certificateId
                   (new_certificate oid adm (generateNextId yr (st_certificates s)) body tpl))
                tpl (rq_placeholderValues body) (rq_containerDimensions body)) = Inl err"
  shows "\<exists>c. fst (create e yr el oid adm body s) =
               \<lparr> res_status = 201, res_success = True,
                 res_message = ''Certificate created successfully'',
                 res_certificate = Some c \<rparr> \<and>
             status c = Failed \<and> generatedFiles c = no_files \<and> cert_oid c = oid \<and>
             c \<in> set (st_certificates (snd (create e yr el oid adm body s))) \<and>
             (\<forall>d\<in>set (st_certificates (snd (create e yr el oid adm body s))).
                cert_oid d = oid \<longrightarrow> d = c)"
proof -
  define cid where "cid = generateNextId yr (st_certificates s)"
  define c0 where "c0 = new_certificate oid adm cid body tpl"
  define c where "c = c0\<lparr> status := Failed, generatedFiles := no_files \<rparr>"
  have ne: "tpl_placeholders tpl \<noteq> []"
    using assms(3) by auto
  have oid0: "cert_oid c0 = oid"
    by (simp add: c0_def new_certificate_def)
  obtain fs' calls where gc: "generateCertificate e (st_files s) (certificateId c0) tpl
        (rq_placeholderValues body) (rq_containerDimensions body) = (Inl err, fs', calls)"
    using assms(6) [folded cid_def, folded c0_def]
    by (cases "generateCertificate e (st_files s) (certificateId c0) tpl
        (rq_placeholderValues body) (rq_containerDimensions body)") auto
  have cr: "create e yr el oid adm body s =
              create_files e el body tpl c0 (record_saved cid c0 tpl certs1 s)"
    using assms(1-4) ne assms(5)
    by (simp add: create_def create_record_def Let_def c0_def cid_def)
  have cf: "create_files e el body tpl c0 (record_saved cid c0 tpl certs1 s) =
      (\<lparr> res_status = 201, res_success = True,
         res_message = ''Certificate created successfully'', res_certificate = Some c \<rparr>,
       (record_saved cid c0 tpl certs1 s)
         \<lparr> st_certificates := save_existing c certs1, st_files := fs',
           st_calls := st_calls (record_saved cid c0 tpl certs1 s) @ calls @ [CallSave c] \<rparr>)"
    using gc by (simp add: create_files_def record_saved_simps c_def [symmetric] Let_def)
  have oc: "cert_oid c = cert_oid c0"
    by (simp add: c_def)
  from save_unique [OF assms(5) [folded cid_def, folded c0_def] oc]
  have uniq: "\<forall>d\<in>set (save_existing c certs1). cert_oid d = oid \<longrightarrow> d = c"
    and mem: "c \<in> set (save_existing c certs1)"
    by (simp_all add: oid0)
  have "fst (create e yr el oid adm body s) =
               \<lparr> res_status = 201, res_success = True,
                 res_message = ''Certificate created successfully'',
                 res_certificate = Some c \<rparr> \<and>
             status c = Failed \<and> generatedFiles c = no_files \<and> cert_oid c = oid \<and>
             c \<in> set (st_certificates (snd (create e yr el oid adm body s))) \<and>
             (\<forall>d\<in>set (st_certificates (snd (create e yr el oid adm body s))).
                cert_oid d = oid \<longrightarrow> d = c)"
    using uniq mem by (simp add: cr cf c_def oid0)
  then show ?thesis by (rule exI)
qed

lemma broken_generateCertificate:
  "fst (generateCertificate broken_env fs cid tpl vals cd)
     = Inl (GenerationFailed (PngFailed DecodeError))"
  by (simp add: generateCertificate_def generatePNG_def broken_env_def scenario_env_def)

lemma scenario_name_valid: "validateCertificateCreation (rq_participantName scenario_body)"
  by code_simp

lemma scenario_find:
  "findTemplate broken_env (rq_templateId scenario_body) admin1 (st_templates scenario_state)
     = Inr (Some scenario_template)"
  by code_simp

lemma scenario_has_both:
  "list_ex (\<lambda>p. pl_type p = PName) (tpl_placeholders scenario_template)"
  "list_ex (\<lambda>p. pl_type p = PId) (tpl_placeholders scenario_template)"
  by (simp_all add: scenario_template_def scenario_name_def scenario_id_def)

lemma scenario_validates:
  "validates (new_certificate cert1 admin1
       (generateNextId 2024 (st_certificates scenario_state)) scenario_body scenario_template)"
  by code_simp

lemma scenario_save:
  "save_new (new_certificate cert1 admin1
       (generateNextId 2024 (st_certificates scenario_state)) scenario_body scenario_template)
     (st_certificates scenario_state) =
   Inr [new_certificate cert1 admin1
       (generateNextId 2024 (st_certificates scenario_state)) scenario_body scenario_template]"
  using scenario_validates by (simp add: save_new_def scenario_state_def)

theorem failed_generation_still_created_witness:
  "validateCertificateCreation (rq_participantName scenario_body) \<and>
   findTemplate broken_env (rq_templateId scenario_body) admin1 (st_templates scenario_state)
     = Inr (Some scenario_template) \<and>
   list_ex (\<lambda>p. pl_type p = PName) (tpl_placeholders scenario_template) \<and>
   list_ex (\<lambda>p. pl_type p = PId) (tpl_placeholders scenario_template) \<and>
   fst (generateCertificate broken_env (st_files scenario_state)
          (certificateId (new_certificate cert1 admin1
             (generateNextId 2024 (st_certificates scenario_state)) scenario_body
             scenario_template))
          scenario_template (rq_placeholderValues scenario_body)
          (rq_containerDimensions scenario_body))
     = Inl (GenerationFailed (PngFailed DecodeError)) \<and>
   (\<exists>c. fst (create broken_env 2024 120 cert1 admin1 scenario_body scenario_state) =
          \<lparr> res_status = 201, res_success = True,
            res_message = ''Certificate created successfully'', res_certificate = Some c \<rparr> \<and>
        status c = Failed \<and>
        c \<in> set (st_certificates
                  (snd (create broken_env 2024 120 cert1 admin1 scenario_body
                          scenario_state))))"
proof -
  let ?run = "create broken_env 2024 120 cert1 admin1 scenario_body scenario_state"
  from failed_generation_still_created [OF scenario_name_valid scenario_find scenario_has_both
      scenario_save broken_generateCertificate, where el = 120]
  obtain c where
    "fst ?run =
          \<lparr> res_status = 201, res_success = True,
            res_message = ''Certificate created successfully'', res_certificate = Some c \<rparr>"
    and "status c = Failed" and "generatedFiles c = no_files" and "cert_oid c = cert1"
    and "c \<in> set (st_certificates (snd ?run))"
    and "\<forall>d\<in>set (st_certificates (snd ?run)). cert_oid d = cert1 \<longrightarrow> d = c"
    by (elim exE conjE)
  then show ?thesis
    by (intro conjI scenario_name_valid scenario_find scenario_has_both
        broken_generateCertificate exI [of _ c])
qed

section \<open>Bulk delete\<close>

lemma delete_cert_files_id: "delete_cert_files c acc = acc"
  by (cases acc) (simp add: delete_cert_files_def cert_pdfPath_def cert_pngPath_def)

lemma foldl_delete_cert_files: "foldl (\<lambda>acc c. delete_cert_files c acc) acc cs = acc"
  by (induction cs arbitrary: acc) (simp_all add: delete_cert_files_id)

text \<open>No call of the bulk-delete handler removes a file.\<close>

lemma bulkDelete_keeps_files: "st_files (snd (bulkDelete adminId confirmText s)) = st_files s"
  by (simp add: bulkDelete_def foldl_delete_cert_files Let_def)

text \<open>Any confirmation text but the exact phrase is answered 400 and changes nothing.\<close>

lemma bulkDelete_rejected:
  "confirmText \<noteq> Some ''DELETE ALL CERTIFICATES'' \<Longrightarrow>
     br_status (fst (bulkDelete adminId confirmText s)) = 400 \<and>
     \<not> br_success (fst (bulkDelete adminId confirmText s)) \<and>
     snd (bulkDelete adminId confirmText s) = s"
  by (simp add: bulkDelete_def)

text \<open>With the exact phrase the admin's active records are removed from the database.\<close>

lemma bulkDelete_confirmed:
  "st_certificates (snd (bulkDelete adminId (Some ''DELETE ALL CERTIFICATES'') s)) =
     filter (\<lambda>c. \<not> (createdBy c = adminId \<and> isActive c)) (st_certificates s)"
  by (auto simp: bulkDelete_def foldl_delete_cert_files Let_def bulk_matches_def
      filter_empty_conv intro!: filter_True [symmetric])

text \<open>
  C9, evaluated where the code departs from it. The admin has one generated certificate
  whose record names its PDF and PNG under \<open>generatedFiles\<close> and whose two files are on
  disk. With the exact confirmation phrase the handler answers 200, reports one record and
  no file deleted, removes the record, and leaves both files on disk.
\<close>

theorem bulk_delete_leaves_files:
  "fst (bulkDelete admin1 (Some ''DELETE ALL CERTIFICATES'') bulk_state) =
     \<lparr> br_status = 200, br_success = True,
       br_message = ''Successfully deleted 1 certificates'',
       br_deletedCount = Some 1, br_filesDeleted = Some 0 \<rparr> \<and>
   st_certificates (snd (bulkDelete admin1 (Some ''DELETE ALL CERTIFICATES'') bulk_state))
     = [] \<and>
   map_option fm_path (gf_pdf (generatedFiles (hd (st_certificates bulk_state))))
     = Some ''generated/CERT-2024-001.pdf'' \<and>
   st_files (snd (bulkDelete admin1 (Some ''DELETE ALL CERTIFICATES'') bulk_state))
      ''generated/CERT-2024-001.pdf'' = Some (PdfFile scenario_image []) \<and>
   st_files (snd (bulkDelete admin1 (Some ''DELETE ALL CERTIFICATES'') bulk_state))
      ''generated/CERT-2024-001.png'' = Some (PngFile scenario_image [])"
  by code_simp

section \<open>Certificate identifiers\<close>

text \<open>The first two identifiers of a year, as the code and as the specification give them.\<close>

lemma first_two_ids:
  "generateNextId 2024 [] = ''CERT-2024-001'' \<and>
   generateNextId 2024 [cert_with_id cert1 ''CERT-2024-001''] = ''CERT-2024-002'' \<and>
   spec_nextId 2024 [] = ''CERT-2024-001'' \<and>
   spec_nextId 2024 [cert_with_id cert1 ''CERT-2024-001''] = ''CERT-2024-002''"
  by code_simp

text \<open>
  C6, evaluated where the code departs from it. After CERT-2024-999 the code itself
  assigns CERT-2024-1000. With both stored, the highest sequence number of the year is
  1000 and the next identifier should be CERT-2024-1001, but the latest identifier in
  string order is still CERT-2024-999, and the code returns CERT-2024-1000 again.
\<close>

theorem next_id_after_1000:
  "generateNextId 2024 [cert_with_id cert1 ''CERT-2024-999''] = ''CERT-2024-1000'' \<and>
   generateNextId 2024
     [cert_with_id cert1 ''CERT-2024-999'', cert_with_id cert2 ''CERT-2024-1000'']
     = ''CERT-2024-1000'' \<and>
   highest_seq 2024
     [cert_with_id cert1 ''CERT-2024-999'', cert_with_id cert2 ''CERT-2024-1000'']
     = 1000 \<and>
   spec_nextId 2024
     [cert_with_id cert1 ''CERT-2024-999'', cert_with_id cert2 ''CERT-2024-1000'']
     = ''CERT-2024-1001'' \<and>
   valid_certificateId ''CERT-2024-999'' \<and> valid_certificateId ''CERT-2024-1000''"
  by code_simp

end
